theory Spec2Isabelle
  imports Main
begin

section \<open>Strings\<close>

text \<open>
  A JavaScript string is modelled as an Isabelle \<open>string\<close>: a list of code units below 256.
  \<open>length\<close> is then JavaScript's \<open>.length\<close>, and the white space that \<open>String.prototype.trim\<close>
  removes is, in that range, TAB, LF, VT, FF, CR, SPACE and NBSP.
\<close>

definition is_space :: "char \<Rightarrow> bool" where
  "is_space c = (of_char c \<in> {9, 10, 11, 12, 13, 32, 160 :: nat})"

definition trim :: "string \<Rightarrow> string" where
  "trim s = rev (dropWhile is_space (rev (dropWhile is_space s)))"

definition digit_char :: "nat \<Rightarrow> char" where
  "digit_char d = ''0123456789'' ! d"

text \<open>Number-to-string conversion of a non-negative integer, as a template literal does it.\<close>

function show_nat :: "nat \<Rightarrow> string" where
  "show_nat n = (if n < 10 then [digit_char n] else show_nat (n div 10) @ [digit_char (n mod 10)])"
  by pat_completeness auto
termination
  by (relation "measure (\<lambda>n. n)") auto

declare show_nat.simps [simp del]

text \<open>\<open>String.prototype.startsWith\<close> and \<open>String.prototype.includes\<close> (\<open>str_includes\<close>).\<close>

fun startsWith :: "string \<Rightarrow> string \<Rightarrow> bool" where
  "startsWith s [] = True"
| "startsWith [] (p # ps) = False"
| "startsWith (c # cs) (p # ps) = (c = p \<and> startsWith cs ps)"

fun str_includes :: "string \<Rightarrow> string \<Rightarrow> bool" where
  "str_includes [] sub = (sub = [])"
| "str_includes (c # cs) sub = (startsWith (c # cs) sub \<or> str_includes cs sub)"

subsection \<open>sanitizeText (routes.ts, bulk-processor.ts)\<close>

definition lower_char :: "char \<Rightarrow> char" where
  "lower_char c =
     (case map_of (zip ''ABCDEFGHIJKLMNOPQRSTUVWXYZ'' ''abcdefghijklmnopqrstuvwxyz'') c of
        None \<Rightarrow> c | Some l \<Rightarrow> l)"

text \<open>Prefix test under the \<open>i\<close> flag; the pattern is given in lower case.\<close>

fun startsWith_ci :: "string \<Rightarrow> string \<Rightarrow> bool" where
  "startsWith_ci s [] = True"
| "startsWith_ci [] (p # ps) = False"
| "startsWith_ci (c # cs) (p # ps) = (lower_char c = p \<and> startsWith_ci cs ps)"

definition is_word_char :: "char \<Rightarrow> bool" where
  "is_word_char c = (let n = (of_char c :: nat) in
     (48 \<le> n \<and> n \<le> 57) \<or> (65 \<le> n \<and> n \<le> 90) \<or> (97 \<le> n \<and> n \<le> 122) \<or> n = 95)"

text \<open>
  The remainder after the first \<open></script>\<close> (any case), if there is one. In the pattern
  \<open><script\b[^<]*(?:(?!<\/script>)<[^<]*)*<\/script>\<close> the repeated group cannot step over
  a closing tag and every other \<open><\<close> is consumed, so a match ends at the first closing tag.
\<close>

fun after_close :: "string \<Rightarrow> string option" where
  "after_close [] = None"
| "after_close (c # cs) =
     (if startsWith_ci (c # cs) ''</script>'' then Some (drop 9 (c # cs)) else after_close cs)"

text \<open>A match of the script pattern at the start of the string: what follows the match.\<close>

definition script_match :: "string \<Rightarrow> string option" where
  "script_match s =
     (if startsWith_ci s ''<script'' \<and> (case drop 7 s of [] \<Rightarrow> True | c # _ \<Rightarrow> \<not> is_word_char c)
      then after_close (drop 7 s) else None)"

lemma after_close_length: "after_close s = Some r \<Longrightarrow> length r < length s"
  by (induction s) (auto split: if_splits)

lemma script_match_length: "script_match s = Some r \<Longrightarrow> length r < length s"
  by (auto simp: script_match_def split: if_splits dest!: after_close_length)

text \<open>\<open>.replace(/<script...<\/script>/gi, '')\<close>: every match, left to right, is removed.\<close>

function strip_scripts :: "string \<Rightarrow> string" where
  "strip_scripts [] = []"
| "strip_scripts (c # cs) =
     (case script_match (c # cs) of
        Some rest \<Rightarrow> strip_scripts rest
      | None \<Rightarrow> c # strip_scripts cs)"
  by pat_completeness auto
termination
  by (relation "measure length") (auto dest: script_match_length)

text \<open>\<open>.replace(/<[^>]*>/g, '')\<close>: from a \<open><\<close> up to the next \<open>>\<close>, when there is one.\<close>

function strip_tags :: "string \<Rightarrow> string" where
  "strip_tags [] = []"
| "strip_tags (c # cs) =
     (if c = CHR ''<'' \<and> CHR ''>'' \<in> set cs
      then strip_tags (tl (dropWhile (\<lambda>x. x \<noteq> CHR ''>'') cs))
      else c # strip_tags cs)"
  by pat_completeness auto
termination
proof (relation "measure length")
  fix c :: char and cs :: string
  have "length (tl (dropWhile (\<lambda>x. x \<noteq> CHR ''>'') cs)) \<le> length cs"
    using length_dropWhile_le [of "\<lambda>x. x \<noteq> CHR ''>''" cs] by simp
  then show "(tl (dropWhile (\<lambda>x. x \<noteq> CHR ''>'') cs), c # cs) \<in> measure length"
    by simp
qed auto

definition sanitizeText :: "string \<Rightarrow> string" where
  "sanitizeText text = trim (strip_tags (strip_scripts text))"


section \<open>Scoring engine: analyzeSeoTags (routes.ts)\<close>

datatype tag_status = Good | Warning | Missing | Error

record SeoTag =
  tag :: string
  content :: string
  status :: tag_status
  feedback :: string
  deduction :: int

record SeoScoreBreakdown =
  b_tag :: string
  issue :: string
  b_deduction :: int

text \<open>
  What the selectors of analyzeSeoTags read from the parsed page (the HTML parser itself is an
  external library): the text of the first \<open>title\<close> element (empty when there is none) and the
  \<open>content\<close> attribute of each meta element (\<open>None\<close> for \<open>undefined\<close>).
\<close>

record page =
  title_text :: string
  meta_description :: "string option"
  meta_robots :: "string option"
  og_title :: "string option"
  og_description :: "string option"
  og_image :: "string option"
  twitter_card :: "string option"
  twitter_title :: "string option"
  twitter_description :: "string option"
  twitter_image :: "string option"

text \<open>\<open>$(sel).attr('content')?.trim() || ''\<close>\<close>

definition attr_trim :: "string option \<Rightarrow> string" where
  "attr_trim a = (case a of None \<Rightarrow> [] | Some v \<Rightarrow> trim v)"

text \<open>The three accumulators of analyzeSeoTags: \<open>tags\<close>, \<open>breakdown\<close> and \<open>score\<close>.\<close>

record analysis_acc =
  tags :: "SeoTag list"
  breakdown :: "SeoScoreBreakdown list"
  score :: int

definition push_tag :: "SeoTag \<Rightarrow> analysis_acc \<Rightarrow> analysis_acc" where
  "push_tag t acc = acc\<lparr>tags := tags acc @ [t]\<rparr>"

definition push_breakdown :: "SeoScoreBreakdown \<Rightarrow> analysis_acc \<Rightarrow> analysis_acc" where
  "push_breakdown b acc = acc\<lparr>breakdown := breakdown acc @ [b]\<rparr>"

definition deduct :: "int \<Rightarrow> analysis_acc \<Rightarrow> analysis_acc" where
  "deduct d acc = acc\<lparr>score := score acc - d\<rparr>"

definition check_title :: "page \<Rightarrow> analysis_acc \<Rightarrow> analysis_acc" where
  "check_title pg acc =
     (let title = trim (title_text pg) in
      if title = [] then
        deduct 25 (push_breakdown \<lparr>b_tag = ''Title'', issue = ''Missing title tag'', b_deduction = 25\<rparr>
          (push_tag \<lparr>tag = ''Title'', content = ''-'', status = Missing,
                     feedback = ''Title tag is missing'', deduction = 25\<rparr> acc))
      else
        let titleLength = length title in
        if titleLength < 30 then
          deduct 10 (push_breakdown \<lparr>b_tag = ''Title'', issue = ''Title too short'', b_deduction = 10\<rparr>
            (push_tag \<lparr>tag = ''Title'', content = sanitizeText title, status = Warning,
                       feedback = ''Title is too short ('' @ show_nat titleLength @ '' chars, recommended 50-60)'',
                       deduction = 10\<rparr> acc))
        else if titleLength > 60 then
          deduct 10 (push_breakdown \<lparr>b_tag = ''Title'', issue = ''Title too long'', b_deduction = 10\<rparr>
            (push_tag \<lparr>tag = ''Title'', content = sanitizeText title, status = Warning,
                       feedback = ''Title is too long ('' @ show_nat titleLength @ '' chars, recommended 50-60)'',
                       deduction = 10\<rparr> acc))
        else
          push_tag \<lparr>tag = ''Title'', content = sanitizeText title, status = Good,
                    feedback = ''Perfect length ('' @ show_nat titleLength @ '' chars)'',
                    deduction = 0\<rparr> acc)"

definition check_description :: "page \<Rightarrow> analysis_acc \<Rightarrow> analysis_acc" where
  "check_description pg acc =
     (let description = attr_trim (meta_description pg) in
      if description = [] then
        deduct 20 (push_breakdown \<lparr>b_tag = ''Meta Description'', issue = ''Missing meta description'', b_deduction = 20\<rparr>
          (push_tag \<lparr>tag = ''Meta Description'', content = ''-'', status = Missing,
                     feedback = ''Meta description is missing'', deduction = 20\<rparr> acc))
      else
        let descLength = length description in
        if descLength < 120 then
          deduct 10 (push_breakdown \<lparr>b_tag = ''Meta Description'', issue = ''Description too short'', b_deduction = 10\<rparr>
            (push_tag \<lparr>tag = ''Meta Description'', content = sanitizeText description, status = Warning,
                       feedback = ''Description is too short ('' @ show_nat descLength @ '' chars, recommended 150-160)'',
                       deduction = 10\<rparr> acc))
        else if descLength > 160 then
          deduct 10 (push_breakdown \<lparr>b_tag = ''Meta Description'', issue = ''Description too long'', b_deduction = 10\<rparr>
            (push_tag \<lparr>tag = ''Meta Description'', content = sanitizeText description, status = Warning,
                       feedback = ''Description is too long ('' @ show_nat descLength @ '' chars, recommended 150-160)'',
                       deduction = 10\<rparr> acc))
        else
          push_tag \<lparr>tag = ''Meta Description'', content = sanitizeText description, status = Good,
                    feedback = ''Perfect length ('' @ show_nat descLength @ '' chars)'',
                    deduction = 0\<rparr> acc)"

text \<open>
  The eight presence checks share one shape: a missing tag is pushed with content \<open>-\<close> and a
  deduction of 5 together with a breakdown entry, a present one is pushed as good. The arguments
  are the literals of each branch; \<open>shown\<close> is the content of the good branch (sanitized for
  all but the two image tags).
\<close>

definition check_present ::
  "string \<Rightarrow> string \<Rightarrow> string \<Rightarrow> string \<Rightarrow> string \<Rightarrow> string \<Rightarrow> string \<Rightarrow> analysis_acc \<Rightarrow> analysis_acc" where
  "check_present name val shown missing_feedback category missing_issue good_feedback acc =
     (if val = [] then
        deduct 5 (push_breakdown \<lparr>b_tag = category, issue = missing_issue, b_deduction = 5\<rparr>
          (push_tag \<lparr>tag = name, content = ''-'', status = Missing,
                     feedback = missing_feedback, deduction = 5\<rparr> acc))
      else
        push_tag \<lparr>tag = name, content = shown, status = Good,
                  feedback = good_feedback, deduction = 0\<rparr> acc)"

definition check_robots :: "page \<Rightarrow> analysis_acc \<Rightarrow> analysis_acc" where
  "check_robots pg =
     (let robots = attr_trim (meta_robots pg) in
      check_present ''Meta Robots'' robots (sanitizeText robots) ''Meta robots tag is missing''
        ''Meta Robots'' ''Missing robots tag'' ''Properly configured'')"

definition check_og_title :: "page \<Rightarrow> analysis_acc \<Rightarrow> analysis_acc" where
  "check_og_title pg =
     (let ogTitle = attr_trim (og_title pg) in
      check_present ''OG Title'' ogTitle (sanitizeText ogTitle) ''Open Graph title is missing''
        ''Open Graph'' ''Missing OG title'' ''Present and configured'')"

definition check_og_description :: "page \<Rightarrow> analysis_acc \<Rightarrow> analysis_acc" where
  "check_og_description pg =
     (let ogDescription = attr_trim (og_description pg) in
      check_present ''OG Description'' ogDescription (sanitizeText ogDescription)
        ''Open Graph description is missing'' ''Open Graph'' ''Missing OG description'' ''Good content'')"

definition check_og_image :: "page \<Rightarrow> analysis_acc \<Rightarrow> analysis_acc" where
  "check_og_image pg =
     (let ogImage = attr_trim (og_image pg) in
      check_present ''OG Image'' ogImage ogImage ''Open Graph image is missing''
        ''Open Graph'' ''Missing OG image'' ''Image present'')"

definition check_twitter_card :: "page \<Rightarrow> analysis_acc \<Rightarrow> analysis_acc" where
  "check_twitter_card pg =
     (let twitterCard = attr_trim (twitter_card pg) in
      check_present ''Twitter Card'' twitterCard (sanitizeText twitterCard) ''Twitter card type is missing''
        ''Twitter Card'' ''Missing card type'' ''Card type configured'')"

definition check_twitter_title :: "page \<Rightarrow> analysis_acc \<Rightarrow> analysis_acc" where
  "check_twitter_title pg =
     (let twitterTitle = attr_trim (twitter_title pg) in
      check_present ''Twitter Title'' twitterTitle (sanitizeText twitterTitle) ''Twitter title is missing''
        ''Twitter Card'' ''Missing Twitter title'' ''Present and configured'')"

definition check_twitter_description :: "page \<Rightarrow> analysis_acc \<Rightarrow> analysis_acc" where
  "check_twitter_description pg =
     (let twitterDescription = attr_trim (twitter_description pg) in
      check_present ''Twitter Description'' twitterDescription (sanitizeText twitterDescription)
        ''Twitter description is missing'' ''Twitter Card'' ''Missing Twitter description'' ''Good content'')"

definition check_twitter_image :: "page \<Rightarrow> analysis_acc \<Rightarrow> analysis_acc" where
  "check_twitter_image pg =
     (let twitterImage = attr_trim (twitter_image pg) in
      check_present ''Twitter Image'' twitterImage twitterImage ''Twitter image is missing''
        ''Twitter Card'' ''Missing Twitter image'' ''Image present'')"

text \<open>
  analyzeSeoTags: the accumulators start as \<open>[]\<close>, \<open>[]\<close> and \<open>100\<close>, the ten checks run in the
  order of the source, and the returned score is \<open>Math.max(0, score)\<close>. The \<open>url\<close> argument is
  not used by the body.
\<close>

definition run_checks :: "page \<Rightarrow> analysis_acc" where
  "run_checks pg =
     check_twitter_image pg (check_twitter_description pg (check_twitter_title pg
       (check_twitter_card pg (check_og_image pg (check_og_description pg (check_og_title pg
         (check_robots pg (check_description pg (check_title pg
           \<lparr>tags = [], breakdown = [], score = 100\<rparr>)))))))))"

definition analyzeSeoTags :: "page \<Rightarrow> string \<Rightarrow> analysis_acc" where
  "analyzeSeoTags pg url = (let acc = run_checks pg in acc\<lparr>score := max 0 (score acc)\<rparr>)"

text \<open>A page on which every selector finds nothing.\<close>

definition empty_page :: page where
  "empty_page = \<lparr>title_text = [], meta_description = None, meta_robots = None, og_title = None,
     og_description = None, og_image = None, twitter_card = None, twitter_title = None,
     twitter_description = None, twitter_image = None\<rparr>"

section \<open>Job store: MemStorage (storage.ts)\<close>

datatype bulk_status = Pending | Processing | Completed | Failed

record BulkAnalysisJob =
  job_id :: string
  userSession :: string
  filename :: string
  totalUrls :: nat
  processedUrls :: nat
  job_status :: bulk_status
  createdAt :: string
  completedAt :: "string option"
  resultFilePath :: "string option"

text \<open>\<open>InsertBulkAnalysisJob = Omit<BulkAnalysisJob, 'id' | 'createdAt'>\<close>\<close>

record InsertBulkAnalysisJob =
  ins_userSession :: string
  ins_filename :: string
  ins_totalUrls :: nat
  ins_processedUrls :: nat
  ins_status :: bulk_status
  ins_completedAt :: "string option"
  ins_resultFilePath :: "string option"

text \<open>
  \<open>Partial<BulkAnalysisJob>\<close>: each field is either absent (\<open>None\<close>) or supplied. For the two
  optional fields the supplied value may itself be \<open>undefined\<close>.
\<close>

record job_updates =
  set_id :: "string option"
  set_userSession :: "string option"
  set_filename :: "string option"
  set_totalUrls :: "nat option"
  set_processedUrls :: "nat option"
  set_status :: "bulk_status option"
  set_createdAt :: "string option"
  set_completedAt :: "string option option"
  set_resultFilePath :: "string option option"

text \<open>The empty object \<open>{}\<close>.\<close>

definition no_updates :: job_updates where
  "no_updates = \<lparr>set_id = None, set_userSession = None, set_filename = None, set_totalUrls = None,
     set_processedUrls = None, set_status = None, set_createdAt = None, set_completedAt = None,
     set_resultFilePath = None\<rparr>"

text \<open>The spread \<open>{ ...job, ...updates }\<close>.\<close>

definition spread_updates :: "BulkAnalysisJob \<Rightarrow> job_updates \<Rightarrow> BulkAnalysisJob" where
  "spread_updates job updates =
     \<lparr>job_id = (case set_id updates of None \<Rightarrow> job_id job | Some v \<Rightarrow> v),
      userSession = (case set_userSession updates of None \<Rightarrow> userSession job | Some v \<Rightarrow> v),
      filename = (case set_filename updates of None \<Rightarrow> filename job | Some v \<Rightarrow> v),
      totalUrls = (case set_totalUrls updates of None \<Rightarrow> totalUrls job | Some v \<Rightarrow> v),
      processedUrls = (case set_processedUrls updates of None \<Rightarrow> processedUrls job | Some v \<Rightarrow> v),
      job_status = (case set_status updates of None \<Rightarrow> job_status job | Some v \<Rightarrow> v),
      createdAt = (case set_createdAt updates of None \<Rightarrow> createdAt job | Some v \<Rightarrow> v),
      completedAt = (case set_completedAt updates of None \<Rightarrow> completedAt job | Some v \<Rightarrow> v),
      resultFilePath = (case set_resultFilePath updates of None \<Rightarrow> resultFilePath job | Some v \<Rightarrow> v)\<rparr>"

record google_preview =
  g_title :: string
  g_description :: string
  g_url :: string

record social_preview =
  p_title :: string
  p_description :: string
  p_image :: string
  p_domain :: string

record twitter_preview = social_preview +
  p_card :: string

record previews =
  google :: google_preview
  facebook :: social_preview
  twitter :: twitter_preview
  linkedin :: social_preview

record SeoAnalysisResult =
  a_url :: string
  a_score :: int
  a_breakdown :: "SeoScoreBreakdown list"
  a_tags :: "SeoTag list"
  a_previews :: previews

record BulkUrlResult =
  r_id :: string
  r_jobId :: string
  r_url :: string
  r_analysisResult :: "SeoAnalysisResult option"
  r_errorMessage :: "string option"
  r_processedAt :: string

text \<open>\<open>InsertBulkUrlResult = Omit<BulkUrlResult, 'id' | 'processedAt'>\<close>\<close>

record InsertBulkUrlResult =
  ins_jobId :: string
  ins_url :: string
  ins_analysisResult :: "SeoAnalysisResult option"
  ins_errorMessage :: "string option"

text \<open>The two maps of MemStorage that the bulk pipeline uses.\<close>

record MemStorage =
  bulkJobs :: "string \<rightharpoonup> BulkAnalysisJob"
  bulkUrlResults :: "string \<rightharpoonup> BulkUrlResult"

text \<open>
  The methods are \<open>async\<close> without an inner \<open>await\<close>: their bodies run when they are called.
  \<open>randomUUID()\<close> and \<open>new Date().toISOString()\<close> are arguments of the model.
\<close>

definition createBulkJob ::
  "string \<Rightarrow> string \<Rightarrow> InsertBulkAnalysisJob \<Rightarrow> MemStorage \<Rightarrow> BulkAnalysisJob \<times> MemStorage" where
  "createBulkJob uuid now insertJob st =
     (let job = \<lparr>job_id = uuid, userSession = ins_userSession insertJob,
                 filename = ins_filename insertJob, totalUrls = ins_totalUrls insertJob,
                 processedUrls = ins_processedUrls insertJob, job_status = ins_status insertJob,
                 createdAt = now, completedAt = ins_completedAt insertJob,
                 resultFilePath = ins_resultFilePath insertJob\<rparr>
      in (job, st\<lparr>bulkJobs := (bulkJobs st)(uuid \<mapsto> job)\<rparr>))"

definition getBulkJob :: "string \<Rightarrow> MemStorage \<Rightarrow> BulkAnalysisJob option" where
  "getBulkJob jobId st = bulkJobs st jobId"

definition updateBulkJob ::
  "string \<Rightarrow> job_updates \<Rightarrow> MemStorage \<Rightarrow> BulkAnalysisJob option \<times> MemStorage" where
  "updateBulkJob jobId updates st =
     (case bulkJobs st jobId of
        None \<Rightarrow> (None, st)
      | Some job \<Rightarrow>
          (let updatedJob = spread_updates job updates
           in (Some updatedJob, st\<lparr>bulkJobs := (bulkJobs st)(jobId \<mapsto> updatedJob)\<rparr>)))"

definition createBulkUrlResult ::
  "string \<Rightarrow> string \<Rightarrow> InsertBulkUrlResult \<Rightarrow> MemStorage \<Rightarrow> BulkUrlResult \<times> MemStorage" where
  "createBulkUrlResult uuid now insertResult st =
     (let result = \<lparr>r_id = uuid, r_jobId = ins_jobId insertResult, r_url = ins_url insertResult,
                    r_analysisResult = ins_analysisResult insertResult,
                    r_errorMessage = ins_errorMessage insertResult, r_processedAt = now\<rparr>
      in (result, st\<lparr>bulkUrlResults := (bulkUrlResults st)(uuid \<mapsto> result)\<rparr>))"

section \<open>CSV processor (csv-processor.ts)\<close>

text \<open>
  The CSV codec is an external library. An uploaded file is its size in bytes and what
  \<open>csv-parse\<close> (with \<open>columns: true\<close>) makes of its bytes: an error message, or the records in
  row order, each listing its properties in enumeration order.
\<close>

type_synonym csv_record = "(string \<times> string) list"

record upload_file =
  file_size :: nat
  csv_parse :: "string + csv_record list"

text \<open>The first of the keys \<open>url, URL, website, link, domain, site\<close> with a non-blank value.\<close>

fun find_column :: "csv_record \<Rightarrow> string list \<Rightarrow> string" where
  "find_column row [] = []"
| "find_column row (col # cols) =
     (case map_of row col of
        None \<Rightarrow> find_column row cols
      | Some v \<Rightarrow> if v \<noteq> [] \<and> trim v \<noteq> [] then trim v else find_column row cols)"

text \<open>The first value that contains \<open>http\<close>, \<open>www.\<close> or a dot.\<close>

fun find_url_like :: "string list \<Rightarrow> string" where
  "find_url_like [] = []"
| "find_url_like (v # vs) =
     (if v \<noteq> [] \<and> (str_includes v ''http'' \<or> str_includes v ''www.'' \<or> str_includes v ''.'')
      then trim v else find_url_like vs)"

text \<open>The \<open>data\<close> handler of parseCSVUrls: the URL that a record contributes, if any.\<close>

definition row_url :: "csv_record \<Rightarrow> string option" where
  "row_url row =
     (let foundUrl = find_column row [''url'', ''URL'', ''website'', ''link'', ''domain'', ''site''];
          foundUrl = (if foundUrl = [] then find_url_like (map snd row) else foundUrl)
      in if foundUrl \<noteq> [] then
           Some (if \<not> startsWith foundUrl ''http://'' \<and> \<not> startsWith foundUrl ''https://''
                 then ''https://'' @ foundUrl else foundUrl)
         else None)"

fun collect_urls :: "csv_record list \<Rightarrow> string list" where
  "collect_urls [] = []"
| "collect_urls (row # rows) =
     (case row_url row of None \<Rightarrow> collect_urls rows | Some u \<Rightarrow> u # collect_urls rows)"

text \<open>
  parseCSVUrls on a file that can be read: the promise is rejected with the parser's error, or
  resolved with the collected URLs.
\<close>

definition parseCSVUrls :: "upload_file \<Rightarrow> string + string list" where
  "parseCSVUrls f = (case csv_parse f of Inl e \<Rightarrow> Inl e | Inr rows \<Rightarrow> Inr (collect_urls rows))"

record validation =
  valid :: bool
  error :: "string option"
  urlCount :: "nat option"

text \<open>
  \<open>(size / 1024 / 1024).toFixed(2)\<close>: both divisions are exact in binary floating point, and
  toFixed rounds the exact quotient to the nearest hundredth, the larger one on a tie.
\<close>

definition toFixed2_MB :: "nat \<Rightarrow> string" where
  "toFixed2_MB sz =
     (let n = (200 * sz + 2 ^ 20) div 2 ^ 21
      in show_nat (n div 100) @ ''.'' @ [digit_char (n mod 100 div 10), digit_char (n mod 10)])"

text \<open>
  validateCSVFile with \<open>maxSizeBytes\<close> at its default \<open>10 * 1024 * 1024\<close>, as its only caller
  uses it. The first argument holds the files that can be read, by path; \<open>fs.promises.stat\<close>
  rejects for a path that is not there.
\<close>

definition validateCSVFile :: "(string \<rightharpoonup> upload_file) \<Rightarrow> string \<Rightarrow> validation" where
  "validateCSVFile fs filePath =
     (case fs filePath of
        None \<Rightarrow>
          \<lparr>valid = False,
           error = Some (''Invalid CSV file: ENOENT: no such file or directory, stat '' @ [CHR 0x27] @ filePath @ [CHR 0x27]),
           urlCount = None\<rparr>
      | Some f \<Rightarrow>
          if file_size f > 10 * 1024 * 1024 then
            \<lparr>valid = False,
             error = Some (''File size '' @ toFixed2_MB (file_size f) @ ''MB exceeds maximum of 10MB''),
             urlCount = None\<rparr>
          else
            (case parseCSVUrls f of
               Inl e \<Rightarrow> \<lparr>valid = False, error = Some (''Invalid CSV file: '' @ e), urlCount = None\<rparr>
             | Inr urls \<Rightarrow>
                 if length urls = 0 then
                   \<lparr>valid = False,
                    error = Some ''No valid URLs found in CSV file. Please ensure your CSV has a column with URLs.'',
                    urlCount = None\<rparr>
                 else if length urls > 1000 then
                   \<lparr>valid = False,
                    error = Some (''CSV contains '' @ show_nat (length urls) @ '' URLs. Maximum allowed is 1000 URLs per batch.''),
                    urlCount = None\<rparr>
                 else \<lparr>valid = True, error = None, urlCount = Some (length urls)\<rparr>))"

subsection \<open>generateResultsCSV\<close>

text \<open>
  A row of the bulk pipeline. The last two fields are not part of the declared type
  \<open>BulkAnalysisResult\<close>, but generateResultsCSV reads them and the tests of the writer set
  them; \<open>None\<close> is \<open>undefined\<close>.
\<close>

record BulkAnalysisResult =
  url :: string
  seoScore :: int
  titleTag :: string
  titleLength :: nat
  metaDescription :: string
  metaDescriptionLength :: nat
  h1Tag :: string
  ogTitle :: string
  ogDescription :: string
  ogImage :: string
  twitterTitle :: string
  twitterDescription :: string
  twitterCard :: string
  robotsTag :: string
  canonicalUrl :: string
  analysisDate :: string
  errorMessage :: "string option"
  breakdownSummary :: "string option"
  scoreBreakdown :: "SeoScoreBreakdown list option"

text \<open>A field handed to \<open>csv-stringify\<close>; it renders \<open>undefined\<close> as an empty field.\<close>

datatype cell = Str string | Num int | Undefined

definition show_int :: "int \<Rightarrow> string" where
  "show_int i = (if i < 0 then ''-'' @ show_nat (nat (- i)) else show_nat (nat i))"

text \<open>\<open>JSON.stringify\<close> on a string and on a list of breakdown entries.\<close>

definition hex_char :: "nat \<Rightarrow> char" where
  "hex_char d = ''0123456789abcdef'' ! d"

definition json_escape :: "char \<Rightarrow> string" where
  "json_escape c =
     (if c = CHR 0x22 then [CHR 0x5C, CHR 0x22]
      else if c = CHR 0x5C then [CHR 0x5C, CHR 0x5C]
      else if c = CHR 0x08 then [CHR 0x5C, CHR ''b'']
      else if c = CHR 0x0C then [CHR 0x5C, CHR ''f'']
      else if c = CHR 0x0A then [CHR 0x5C, CHR ''n'']
      else if c = CHR 0x0D then [CHR 0x5C, CHR ''r'']
      else if c = CHR 0x09 then [CHR 0x5C, CHR ''t'']
      else if (of_char c :: nat) < 32
        then [CHR 0x5C, CHR ''u'', CHR ''0'', CHR ''0'', hex_char (of_char c div 16), hex_char (of_char c mod 16)]
      else [c])"

definition json_string :: "string \<Rightarrow> string" where
  "json_string s = [CHR 0x22] @ concat (map json_escape s) @ [CHR 0x22]"

definition json_entry :: "SeoScoreBreakdown \<Rightarrow> string" where
  "json_entry b =
     ''{'' @ json_string ''tag'' @ '':'' @ json_string (b_tag b) @ '','' @
     json_string ''issue'' @ '':'' @ json_string (issue b) @ '','' @
     json_string ''deduction'' @ '':'' @ show_int (b_deduction b) @ ''}''"

fun join_with :: "string \<Rightarrow> string list \<Rightarrow> string" where
  "join_with sep [] = []"
| "join_with sep [x] = x"
| "join_with sep (x # y # ys) = x @ sep @ join_with sep (y # ys)"

definition json_breakdown :: "SeoScoreBreakdown list \<Rightarrow> string" where
  "json_breakdown bs = ''['' @ join_with '','' (map json_entry bs) @ '']''"

definition columns :: "cell list" where
  "columns = map Str [''URL'', ''SEO_Score'', ''Title_Tag'', ''Title_Length'', ''Meta_Description'',
     ''Meta_Description_Length'', ''H1_Tag'', ''OG_Title'', ''OG_Description'', ''OG_Image'',
     ''Twitter_Title'', ''Twitter_Description'', ''Twitter_Card'', ''Robots_Tag'', ''Canonical_URL'',
     ''Analysis_Date'', ''Score_Breakdown_Summary'', ''Breakdown_Details'', ''Error_Message'']"

definition csv_row :: "BulkAnalysisResult \<Rightarrow> cell list" where
  "csv_row result =
     [Str (url result),
      Num (seoScore result),
      Str (titleTag result),
      Num (int (titleLength result)),
      Str (metaDescription result),
      Num (int (metaDescriptionLength result)),
      Str (h1Tag result),
      Str (ogTitle result),
      Str (ogDescription result),
      Str (ogImage result),
      Str (twitterTitle result),
      Str (twitterDescription result),
      Str (twitterCard result),
      Str (robotsTag result),
      Str (canonicalUrl result),
      Str (analysisDate result),
      (case breakdownSummary result of None \<Rightarrow> Undefined | Some s \<Rightarrow> Str s),
      (case scoreBreakdown result of None \<Rightarrow> Str [] | Some bs \<Rightarrow> Str (json_breakdown bs)),
      (case errorMessage result of None \<Rightarrow> Str [] | Some m \<Rightarrow> Str m)]"

text \<open>
  generateResultsCSV: the table \<open>[columns, ...csvData]\<close> is stringified and written to
  \<open>outputPath\<close>. The first argument is the error of \<open>fs.writeFile\<close>, if it reports one; the
  promise is then rejected with it. The files written are kept by path, as tables.
\<close>

definition generateResultsCSV ::
  "string option \<Rightarrow> BulkAnalysisResult list \<Rightarrow> string \<Rightarrow> (string \<rightharpoonup> cell list list) \<Rightarrow>
     string + (string \<rightharpoonup> cell list list)" where
  "generateResultsCSV writeErr results outputPath fs =
     (let csvData = map csv_row results
      in case writeErr of
           Some e \<Rightarrow> Inl e
         | None \<Rightarrow> Inr (fs(outputPath \<mapsto> columns # csvData)))"

section \<open>Bulk job runner: BulkAnalysisQueue (bulk-processor.ts)\<close>

text \<open>A thrown value: an \<open>Error\<close> object with its message, or anything else.\<close>

datatype thrown = ErrorObj string | NonError

text \<open>A settled promise, as \<open>Promise.allSettled\<close> reports it.\<close>

datatype 'a settled = Fulfilled 'a | Rejected thrown

datatype event =
  JobStarted string
| JobProgress string nat nat nat
| JobCompleted string
| JobFailed string thrown

text \<open>
  The state of the process: the job store, the queue's \<open>processingJobs\<close> set, the files under
  \<open>uploads\<close> (and multer's temporary directory) and under \<open>results\<close> by path relative to the
  working directory, and the events emitted by the queue. \<open>jobWrites\<close> is a history variable:
  the records stored by \<open>bulkJobs.set\<close>, oldest first, each with its key. Nothing reads it.
\<close>

record system =
  storage :: MemStorage
  processingJobs :: "string set"
  uploadFiles :: "string \<rightharpoonup> upload_file"
  resultFiles :: "string \<rightharpoonup> cell list list"
  events :: "event list"
  jobWrites :: "(string \<times> BulkAnalysisJob) list"

definition emit :: "event \<Rightarrow> system \<Rightarrow> system" where
  "emit e sys = sys\<lparr>events := events sys @ [e]\<rparr>"

text \<open>\<open>await storage.createBulkJob(...)\<close> and \<open>await storage.updateBulkJob(...)\<close> on the process state.\<close>

definition storage_createBulkJob ::
  "string \<Rightarrow> string \<Rightarrow> InsertBulkAnalysisJob \<Rightarrow> system \<Rightarrow> BulkAnalysisJob \<times> system" where
  "storage_createBulkJob uuid now insertJob sys =
     (case createBulkJob uuid now insertJob (storage sys) of
        (job, st) \<Rightarrow> (job, sys\<lparr>storage := st, jobWrites := jobWrites sys @ [(uuid, job)]\<rparr>))"

definition storage_updateBulkJob ::
  "string \<Rightarrow> job_updates \<Rightarrow> system \<Rightarrow> BulkAnalysisJob option \<times> system" where
  "storage_updateBulkJob jobId updates sys =
     (case updateBulkJob jobId updates (storage sys) of
        (None, st) \<Rightarrow> (None, sys\<lparr>storage := st\<rparr>)
      | (Some job, st) \<Rightarrow> (Some job, sys\<lparr>storage := st, jobWrites := jobWrites sys @ [(jobId, job)]\<rparr>))"

text \<open>
  What the runner takes from outside, per position \<open>k\<close> of a URL in the job's list:
  the outcome of the page fetch for the URL (\<open>None\<close>: it has not settled when the 30 s timer
  fires), the host name that \<open>new URL(...)\<close> yields or the error it throws, the dates and
  identifiers that \<open>new Date()\<close> and \<open>randomUUID()\<close> return, and the time at which the analysis
  settles. \<open>percent p n\<close> stands for \<open>Math.round((p / n) * 100)\<close>.
\<close>

record env =
  fetch :: "nat \<Rightarrow> string \<Rightarrow> page settled option"
  hostname :: "string \<Rightarrow> thrown + string"
  rowDate :: "nat \<Rightarrow> string"
  resultId :: "nat \<Rightarrow> string"
  resultDate :: "nat \<Rightarrow> string"
  settleTime :: "nat \<Rightarrow> nat"
  finishDate :: string
  writeError :: "string option"
  percent :: "nat \<Rightarrow> nat \<Rightarrow> nat"

text \<open>\<open>$(sel).attr('content') || dflt\<close>\<close>

definition attr_or :: "string option \<Rightarrow> string \<Rightarrow> string" where
  "attr_or a dflt = (case a of None \<Rightarrow> dflt | Some v \<Rightarrow> if v = [] then dflt else v)"

definition performSeoAnalysis :: "env \<Rightarrow> nat \<Rightarrow> string \<Rightarrow> SeoAnalysisResult settled option" where
  "performSeoAnalysis env k targetUrl =
     (let urlToAnalyze = (if startsWith targetUrl ''http'' then targetUrl else ''https://'' @ targetUrl)
      in case fetch env k urlToAnalyze of
           None \<Rightarrow> None
         | Some (Rejected e) \<Rightarrow> Some (Rejected e)
         | Some (Fulfilled pg) \<Rightarrow>
             (let analysis = analyzeSeoTags pg urlToAnalyze;
                  title = trim (title_text pg);
                  description = attr_trim (meta_description pg)
              in case hostname env urlToAnalyze of
                   Inl e \<Rightarrow> Some (Rejected e)
                 | Inr domain \<Rightarrow>
                     Some (Fulfilled
                       \<lparr>a_url = targetUrl,
                        a_score = score analysis,
                        a_breakdown = breakdown analysis,
                        a_tags = tags analysis,
                        a_previews =
                          \<lparr>google = \<lparr>g_title = sanitizeText title,
                                     g_description = sanitizeText description,
                                     g_url = targetUrl\<rparr>,
                           facebook = \<lparr>p_title = sanitizeText (attr_or (og_title pg) title),
                                       p_description = sanitizeText (attr_or (og_description pg) description),
                                       p_image = attr_or (og_image pg) [],
                                       p_domain = domain\<rparr>,
                           twitter = \<lparr>p_title = sanitizeText (attr_or (twitter_title pg) title),
                                      p_description = sanitizeText (attr_or (twitter_description pg) description),
                                      p_image = attr_or (twitter_image pg) [],
                                      p_domain = domain,
                                      p_card = attr_or (twitter_card pg) ''summary''\<rparr>,
                           linkedin = \<lparr>p_title = sanitizeText (attr_or (og_title pg) title),
                                       p_description = sanitizeText (attr_or (og_description pg) description),
                                       p_image = attr_or (og_image pg) [],
                                       p_domain = domain\<rparr>\<rparr>\<rparr>)))"

definition extractTagContent :: "SeoTag list \<Rightarrow> string \<Rightarrow> string" where
  "extractTagContent tgs tagName =
     (case List.find (\<lambda>t. tag t = tagName) tgs of None \<Rightarrow> [] | Some t \<Rightarrow> content t)"

text \<open>
  \<open>Promise.race([analysisPromise, timeoutPromise])\<close>: the analysis, or the timer's rejection when
  the analysis has not settled after 30 s.
\<close>

definition analysis_race :: "env \<Rightarrow> nat \<Rightarrow> string \<Rightarrow> SeoAnalysisResult settled" where
  "analysis_race env k u =
     (case performSeoAnalysis env k u of
        None \<Rightarrow> Rejected (ErrorObj ''URL analysis timeout'')
      | Some r \<Rightarrow> r)"

text \<open>
  processUrl for the URL at position \<open>k\<close>: the race, then the \<open>try\<close> branch or the \<open>catch\<close>
  branch. The result is how the returned promise settles, and the store after
  \<open>createBulkUrlResult\<close>.
\<close>

definition processUrl ::
  "env \<Rightarrow> nat \<Rightarrow> string \<Rightarrow> string \<Rightarrow> MemStorage \<Rightarrow> BulkAnalysisResult settled \<times> MemStorage" where
  "processUrl env k u jobId st =
     (case analysis_race env k u of
        Fulfilled analysis \<Rightarrow>
             (let csvResult =
                    \<lparr>url = a_url analysis,
                     seoScore = a_score analysis,
                     titleTag = extractTagContent (a_tags analysis) ''Title'',
                     titleLength = length (extractTagContent (a_tags analysis) ''Title''),
                     metaDescription = extractTagContent (a_tags analysis) ''Meta Description'',
                     metaDescriptionLength = length (extractTagContent (a_tags analysis) ''Meta Description''),
                     h1Tag = extractTagContent (a_tags analysis) ''H1'',
                     ogTitle = p_title (facebook (a_previews analysis)),
                     ogDescription = p_description (facebook (a_previews analysis)),
                     ogImage = p_image (facebook (a_previews analysis)),
                     twitterTitle = p_title (twitter (a_previews analysis)),
                     twitterDescription = p_description (twitter (a_previews analysis)),
                     twitterCard = p_card (twitter (a_previews analysis)),
                     robotsTag = extractTagContent (a_tags analysis) ''Robots'',
                     canonicalUrl = extractTagContent (a_tags analysis) ''Canonical'',
                     analysisDate = rowDate env k,
                     errorMessage = None,
                     breakdownSummary = None,
                     scoreBreakdown = None\<rparr>;
                  st' = snd (createBulkUrlResult (resultId env k) (resultDate env k)
                          \<lparr>ins_jobId = jobId, ins_url = u, ins_analysisResult = Some analysis,
                           ins_errorMessage = None\<rparr> st)
              in (Fulfilled csvResult, st'))
      | Rejected err \<Rightarrow>
             (let errorMessage = (case err of ErrorObj m \<Rightarrow> m | NonError \<Rightarrow> ''Unknown error'');
                  st' = snd (createBulkUrlResult (resultId env k) (resultDate env k)
                          \<lparr>ins_jobId = jobId, ins_url = u, ins_analysisResult = None,
                           ins_errorMessage = Some errorMessage\<rparr> st)
              in (Rejected (ErrorObj (''Failed to analyze '' @ u @ '': '' @ errorMessage)), st')))"

definition batchSize :: nat where
  "batchSize = 10"

text \<open>
  Lines 59 to 61: every processUrl of the batch is started, and \<open>Promise.allSettled\<close> reports
  the outcomes in the order of the batch. The stores of the results happen in the order in which
  the analyses settle.
\<close>

definition settle_order :: "env \<Rightarrow> nat \<Rightarrow> nat \<Rightarrow> nat list" where
  "settle_order env i n = sort_key (\<lambda>j. settleTime env (i + j)) [0..<n]"

definition run_batch ::
  "env \<Rightarrow> string \<Rightarrow> nat \<Rightarrow> string list \<Rightarrow> system \<Rightarrow> BulkAnalysisResult settled list \<times> system" where
  "run_batch env jobId i batch sys =
     (let batchResults = map (\<lambda>j. fst (processUrl env (i + j) (batch ! j) jobId (storage sys)))
                           [0..<length batch];
          st' = foldl (\<lambda>st j. snd (processUrl env (i + j) (batch ! j) jobId st)) (storage sys)
                  (settle_order env i (length batch))
      in (batchResults, sys\<lparr>storage := st'\<rparr>))"

text \<open>\<open>result.reason?.message || 'Analysis failed'\<close>\<close>

definition reason_message :: "thrown \<Rightarrow> string" where
  "reason_message reason =
     (case reason of ErrorObj m \<Rightarrow> if m = [] then ''Analysis failed'' else m
                   | NonError \<Rightarrow> ''Analysis failed'')"

definition errorResult :: "string \<Rightarrow> string \<Rightarrow> thrown \<Rightarrow> BulkAnalysisResult" where
  "errorResult u now reason =
     \<lparr>url = u, seoScore = 0, titleTag = [], titleLength = 0, metaDescription = [],
      metaDescriptionLength = 0, h1Tag = [], ogTitle = [], ogDescription = [], ogImage = [],
      twitterTitle = [], twitterDescription = [], twitterCard = [], robotsTag = [],
      canonicalUrl = [], analysisDate = now, errorMessage = Some (reason_message reason),
      breakdownSummary = None, scoreBreakdown = None\<rparr>"

text \<open>The inner loop, lines 63 to 104, from index \<open>j\<close> on.\<close>

fun settle_loop ::
  "env \<Rightarrow> string \<Rightarrow> nat \<Rightarrow> nat \<Rightarrow> nat \<Rightarrow> (string \<times> BulkAnalysisResult settled) list \<Rightarrow>
     system \<times> BulkAnalysisResult list \<Rightarrow> system \<times> BulkAnalysisResult list" where
  "settle_loop env jobId n i j [] acc = acc"
| "settle_loop env jobId n i j ((u, result) # rest) (sys, results) =
     (let results' = results @ [case result of
                                  Fulfilled v \<Rightarrow> v
                                | Rejected reason \<Rightarrow> errorResult u (rowDate env (i + j)) reason];
          processedCount = i + j + 1;
          sys1 = snd (storage_updateBulkJob jobId
                   (no_updates\<lparr>set_processedUrls := Some processedCount\<rparr>) sys);
          sys2 = emit (JobProgress jobId n processedCount (percent env processedCount n)) sys1
      in settle_loop env jobId n i (j + 1) rest (sys2, results'))"

text \<open>The outer loop, lines 57 to 105, from index \<open>i\<close> on.\<close>

function batch_loop ::
  "env \<Rightarrow> string \<Rightarrow> string list \<Rightarrow> nat \<Rightarrow> system \<times> BulkAnalysisResult list \<Rightarrow>
     system \<times> BulkAnalysisResult list" where
  "batch_loop env jobId urls i (sys, results) =
     (if i < length urls then
        (let batch = take batchSize (drop i urls) in
         case run_batch env jobId i batch sys of
           (batchResults, sys1) \<Rightarrow>
             batch_loop env jobId urls (i + batchSize)
               (settle_loop env jobId (length urls) i 0 (zip batch batchResults) (sys1, results)))
      else (sys, results))"
  by pat_completeness auto
termination
  by (relation "measure (\<lambda>(env, jobId, urls, i, acc). length urls - i)") (auto simp: batchSize_def)

declare batch_loop.simps [simp del]

definition upload_path :: "string \<Rightarrow> string" where
  "upload_path jobId = ''uploads/'' @ jobId @ ''.csv''"

definition result_path :: "string \<Rightarrow> string" where
  "result_path jobId = ''results/'' @ jobId @ ''_results.csv''"

text \<open>
  How the \<open>try\<close> block of processJob ends: it runs to its end, it throws, or it is never resumed.
  The last is the case of an upload that cannot be opened: parseCSVUrls listens for \<open>error\<close> on
  the parser only, so the error of the read stream neither resolves nor rejects its promise.
\<close>

datatype try_result = Returned system | Threw thrown system | Stuck

definition processJob_try :: "env \<Rightarrow> string \<Rightarrow> system \<Rightarrow> try_result" where
  "processJob_try env jobId sys =
     (case getBulkJob jobId (storage sys) of
        None \<Rightarrow> Threw (ErrorObj (''Job '' @ jobId @ '' not found'')) sys
      | Some job \<Rightarrow>
          (let sys1 = snd (storage_updateBulkJob jobId
                        (no_updates\<lparr>set_status := Some Processing, set_processedUrls := Some 0\<rparr>) sys)
           in case uploadFiles sys1 (upload_path jobId) of
                None \<Rightarrow> Stuck
              | Some f \<Rightarrow>
                  (case parseCSVUrls f of
                     Inl e \<Rightarrow> Threw (ErrorObj e) sys1
                   | Inr urls \<Rightarrow>
                       (case batch_loop env jobId urls 0 (sys1, []) of
                          (sys2, results) \<Rightarrow>
                            (let resultPath = result_path jobId
                             in case generateResultsCSV (writeError env) results resultPath (resultFiles sys2) of
                                  Inl e \<Rightarrow> Threw (ErrorObj e) sys2
                                | Inr fs \<Rightarrow>
                                    (let sys3 = sys2\<lparr>resultFiles := fs\<rparr>;
                                         sys4 = snd (storage_updateBulkJob jobId
                                                  (no_updates\<lparr>set_status := Some Completed,
                                                     set_completedAt := Some (Some (finishDate env)),
                                                     set_resultFilePath := Some (Some resultPath)\<rparr>) sys3)
                                     in Returned (emit (JobCompleted jobId) sys4)))))))"

text \<open>
  processJob, lines 32-33: the job id enters the processing set and \<open>job-started\<close> is emitted.
\<close>

definition processJob_enter :: "string \<Rightarrow> system \<Rightarrow> system" where
  "processJob_enter jobId sys =
     emit (JobStarted jobId) (sys\<lparr>processingJobs := insert jobId (processingJobs sys)\<rparr>)"

text \<open>processJob, line 131: the \<open>finally\<close> block.\<close>

definition processJob_finally :: "string \<Rightarrow> system \<Rightarrow> system" where
  "processJob_finally jobId sys = sys\<lparr>processingJobs := processingJobs sys - {jobId}\<rparr>"

text \<open>
  processJob: the guard, the \<open>try\<close> block, the \<open>catch\<close> block and the \<open>finally\<close> block. \<open>None\<close>:
  the call never returns.
\<close>

definition processJob :: "env \<Rightarrow> string \<Rightarrow> system \<Rightarrow> system option" where
  "processJob env jobId sys =
     (if jobId \<in> processingJobs sys then Some sys
      else
        (case processJob_try env jobId (processJob_enter jobId sys) of
           Stuck \<Rightarrow> None
         | Returned sys2 \<Rightarrow> Some (processJob_finally jobId sys2)
         | Threw err sys2 \<Rightarrow>
             (let sys3 = snd (storage_updateBulkJob jobId
                           (no_updates\<lparr>set_status := Some Failed,
                              set_completedAt := Some (Some (finishDate env))\<rparr>) sys2);
                  sys4 = emit (JobFailed jobId err) sys3
              in Some (processJob_finally jobId sys4))))"

definition isProcessing :: "string \<Rightarrow> system \<Rightarrow> bool" where
  "isProcessing jobId sys = (jobId \<in> processingJobs sys)"

section \<open>HTTP handlers of the bulk pipeline (routes.ts)\<close>

text \<open>cleanupFile: \<open>fs.promises.unlink\<close>, with its error caught.\<close>

definition cleanupFile :: "string \<Rightarrow> system \<Rightarrow> system" where
  "cleanupFile filePath sys =
     sys\<lparr>uploadFiles := (uploadFiles sys)(filePath := None),
         resultFiles := (resultFiles sys)(filePath := None)\<rparr>"

definition existsSync :: "string \<Rightarrow> system \<Rightarrow> bool" where
  "existsSync filePath sys = (uploadFiles sys filePath \<noteq> None \<or> resultFiles sys filePath \<noteq> None)"

text \<open>\<open>req.file\<close> as multer leaves it: the temporary path and the original name.\<close>

record uploaded =
  file_path :: string
  originalname :: string

text \<open>
  POST /api/bulk/upload up to the creation of the job (lines 957 to 982): the error of a 400
  response, or the job.
\<close>

definition upload_create ::
  "string \<Rightarrow> string \<Rightarrow> string \<Rightarrow> uploaded option \<Rightarrow> system \<Rightarrow> (string + BulkAnalysisJob) \<times> system" where
  "upload_create uuid now sessionId req_file sys =
     (case req_file of
        None \<Rightarrow> (Inl ''No file uploaded. Please select a CSV file.'', sys)
      | Some uploadedFile \<Rightarrow>
          (let validation = validateCSVFile (uploadFiles sys) (file_path uploadedFile)
           in if \<not> valid validation then
                (Inl (case error validation of None \<Rightarrow> [] | Some e \<Rightarrow> e),
                 cleanupFile (file_path uploadedFile) sys)
              else
                (case storage_createBulkJob uuid now
                        \<lparr>ins_userSession = sessionId,
                         ins_filename = originalname uploadedFile,
                         ins_totalUrls = (case urlCount validation of None \<Rightarrow> 0 | Some n \<Rightarrow> n),
                         ins_processedUrls = 0,
                         ins_status = Pending,
                         ins_completedAt = None,
                         ins_resultFilePath = None\<rparr> sys of
                   (job, sys1) \<Rightarrow> (Inr job, sys1))))"

text \<open>
  The rest of the handler (lines 984 to 986): the file is renamed to its permanent path; the
  handler then starts processJob without waiting for it. A rename that fails leads to the
  \<open>catch\<close> block.
\<close>

definition upload_rename :: "BulkAnalysisJob \<Rightarrow> uploaded \<Rightarrow> system \<Rightarrow> system" where
  "upload_rename job uploadedFile sys =
     (case uploadFiles sys (file_path uploadedFile) of
        None \<Rightarrow> cleanupFile (file_path uploadedFile) sys
      | Some f \<Rightarrow>
          sys\<lparr>uploadFiles := ((uploadFiles sys)(file_path uploadedFile := None))
                               (upload_path (job_id job) \<mapsto> f)\<rparr>)"

text \<open>DELETE /api/bulk/jobs/:jobId (lines 1124 to 1160): the status code and the new state.\<close>

definition delete_job :: "string \<Rightarrow> string \<Rightarrow> system \<Rightarrow> nat \<times> system" where
  "delete_job jobId sessionId sys =
     (case getBulkJob jobId (storage sys) of
        None \<Rightarrow> (404, sys)
      | Some job \<Rightarrow>
          if userSession job \<noteq> sessionId then (403, sys)
          else
            (let sys1 = (if job_status job = Pending \<or> job_status job = Processing
                         then snd (storage_updateBulkJob jobId (no_updates\<lparr>set_status := Some Failed\<rparr>) sys)
                         else sys);
                 uploadPath = upload_path jobId;
                 sys2 = (if existsSync uploadPath sys1 then cleanupFile uploadPath sys1 else sys1);
                 sys3 = (case resultFilePath job of
                           None \<Rightarrow> sys2
                         | Some p \<Rightarrow> if p \<noteq> [] \<and> existsSync p sys2
                                       then cleanupFile p sys2 else sys2)
             in (200, sys3)))"

section \<open>Notions used in the statements and proofs\<close>

text \<open>Scoring engine: one check appends one tag, and a breakdown entry with the same deduction
  unless the tag is good.\<close>

definition not_good :: "SeoTag \<Rightarrow> bool" where
  "not_good t = (status t \<noteq> Good)"

definition step_ok :: "string \<Rightarrow> analysis_acc \<Rightarrow> analysis_acc \<Rightarrow> bool" where
  "step_ok n acc acc' =
     (\<exists>t bs. tags acc' = tags acc @ [t] \<and> tag t = n \<and> breakdown acc' = breakdown acc @ bs \<and>
        map b_deduction bs = map deduction (filter not_good [t]) \<and>
        score acc' = score acc - sum_list (map b_deduction bs) \<and>
        (\<forall>b \<in> set bs. 0 \<le> b_deduction b))"

definition acc_inv :: "string list \<Rightarrow> analysis_acc \<Rightarrow> bool" where
  "acc_inv names acc =
     (map tag (tags acc) = names \<and>
      score acc = 100 - sum_list (map b_deduction (breakdown acc)) \<and>
      map b_deduction (breakdown acc) = map deduction (filter not_good (tags acc)) \<and>
      (\<forall>b \<in> set (breakdown acc). 0 \<le> b_deduction b))"

text \<open>
  Runner: how the promise of processUrl settles for the URL at position \<open>k\<close> (it does not depend
  on the store), the record it stores, the row the runner pushes for it, and one pass of the
  outer loop.
\<close>

definition outcome :: "env \<Rightarrow> string \<Rightarrow> nat \<Rightarrow> string \<Rightarrow> BulkAnalysisResult settled" where
  "outcome env jobId k u = fst (processUrl env k u jobId \<lparr>bulkJobs = Map.empty, bulkUrlResults = Map.empty\<rparr>)"

definition stored_result :: "env \<Rightarrow> string \<Rightarrow> nat \<Rightarrow> string \<Rightarrow> BulkUrlResult" where
  "stored_result env jobId k u =
     (case analysis_race env k u of
        Fulfilled analysis \<Rightarrow>
          \<lparr>r_id = resultId env k, r_jobId = jobId, r_url = u, r_analysisResult = Some analysis,
           r_errorMessage = None, r_processedAt = resultDate env k\<rparr>
      | Rejected err \<Rightarrow>
          \<lparr>r_id = resultId env k, r_jobId = jobId, r_url = u, r_analysisResult = None,
           r_errorMessage = Some (case err of ErrorObj m \<Rightarrow> m | NonError \<Rightarrow> ''Unknown error''),
           r_processedAt = resultDate env k\<rparr>)"

definition final_row :: "env \<Rightarrow> string \<Rightarrow> string list \<Rightarrow> nat \<Rightarrow> BulkAnalysisResult" where
  "final_row env jobId urls k =
     (case outcome env jobId k (urls ! k) of
        Fulfilled v \<Rightarrow> v
      | Rejected reason \<Rightarrow> errorResult (urls ! k) (rowDate env k) reason)"

definition batch_step ::
  "env \<Rightarrow> string \<Rightarrow> string list \<Rightarrow> nat \<Rightarrow> system \<times> BulkAnalysisResult list \<Rightarrow>
     system \<times> BulkAnalysisResult list" where
  "batch_step env jobId urls i acc =
     settle_loop env jobId (length urls) i 0
       (zip (take batchSize (drop i urls))
            (fst (run_batch env jobId i (take batchSize (drop i urls)) (fst acc))))
       (snd (run_batch env jobId i (take batchSize (drop i urls)) (fst acc)), snd acc)"

text \<open>
  The states of a run in flight: \<open>claimed\<close> is the state in which the upload is read and the
  loops start (after lines 32-45), \<open>looped\<close> the state in which the loops end and the result
  file is written (after line 105).
\<close>

definition claimed :: "string \<Rightarrow> system \<Rightarrow> system" where
  "claimed jobId sys =
     snd (storage_updateBulkJob jobId
            (no_updates\<lparr>set_status := Some Processing, set_processedUrls := Some 0\<rparr>)
            (processJob_enter jobId sys))"

definition looped :: "env \<Rightarrow> string \<Rightarrow> string list \<Rightarrow> system \<Rightarrow> system" where
  "looped env jobId urls sys = fst (batch_loop env jobId urls 0 (claimed jobId sys, []))"

definition all_rows :: "env \<Rightarrow> string \<Rightarrow> string list \<Rightarrow> BulkAnalysisResult list" where
  "all_rows env jobId urls = map (final_row env jobId urls) [0 ..< length urls]"

text \<open>The results of the first \<open>n\<close> URLs are in the store.\<close>

definition stored_upto :: "env \<Rightarrow> string \<Rightarrow> string list \<Rightarrow> nat \<Rightarrow> system \<Rightarrow> bool" where
  "stored_upto env jobId urls n sys =
     (\<forall>k < n. bulkUrlResults (storage sys) (resultId env k) =
                 Some (stored_result env jobId k (urls ! k)))"

text \<open>The statuses of the records written to the job store, oldest first.\<close>

definition status_history :: "system \<Rightarrow> bulk_status list" where
  "status_history sys = map (\<lambda>w. job_status (snd w)) (jobWrites sys)"

text \<open>The processed-count and the total of the records written to the job store, oldest first.\<close>

definition count_history :: "system \<Rightarrow> (nat \<times> nat) list" where
  "count_history sys = map (\<lambda>w. (processedUrls (snd w), totalUrls (snd w))) (jobWrites sys)"

section \<open>A worked example\<close>

text \<open>
  An upload with three URL rows; the first page is fetched (and has none of the checked tags),
  the second fetch has not settled when the timer fires, the third is refused. The percentages
  of the example are those of a job of three URLs: \<open>Math.round((p / 3) * 100)\<close> is 33, 67 and 100
  for \<open>p\<close> = 1, 2 and 3.
\<close>

definition example_upload :: upload_file where
  "example_upload =
     \<lparr>file_size = 100,
      csv_parse = Inr [[(''url'', ''a.com'')], [(''url'', ''http://b.com'')], [(''name'', ''c.org'')]]\<rparr>"

definition example_file :: uploaded where
  "example_file = \<lparr>file_path = ''tmp/x'', originalname = ''x.csv''\<rparr>"

definition example_start :: system where
  "example_start =
     \<lparr>storage = \<lparr>bulkJobs = Map.empty, bulkUrlResults = Map.empty\<rparr>,
      processingJobs = {},
      uploadFiles = [''tmp/x'' \<mapsto> example_upload],
      resultFiles = Map.empty,
      events = [],
      jobWrites = []\<rparr>"

definition example_env :: env where
  "example_env =
     \<lparr>fetch = (\<lambda>k u. if k = 0 then Some (Fulfilled empty_page)
                      else if k = 1 then None
                      else Some (Rejected (ErrorObj ''connect ECONNREFUSED''))),
      hostname = (\<lambda>u. Inr (drop 8 u)),
      rowDate = (\<lambda>k. ''2025-01-01T00:00:0'' @ show_nat k @ ''.000Z''),
      resultId = (\<lambda>k. ''result-'' @ show_nat k),
      resultDate = (\<lambda>k. ''2025-01-01T00:00:0'' @ show_nat k @ ''.500Z''),
      settleTime = (\<lambda>k. 10 - k),
      finishDate = ''2025-01-01T00:01:00.000Z'',
      writeError = None,
      percent = (\<lambda>p n. if p = 0 then 0 else if p = 1 then 33 else if p = 2 then 67 else 100)\<rparr>"

definition example_job :: BulkAnalysisJob where
  "example_job =
     \<lparr>job_id = ''j1'', userSession = ''session'', filename = ''x.csv'', totalUrls = 3,
      processedUrls = 0, job_status = Pending, createdAt = ''2025-01-01T00:00:00.000Z'',
      completedAt = None, resultFilePath = None\<rparr>"

definition example_store :: MemStorage where
  "example_store = \<lparr>bulkJobs = [''j1'' \<mapsto> example_job], bulkUrlResults = Map.empty\<rparr>"

text \<open>The example after the upload handler has created the job and renamed the file.\<close>

definition example_uploaded :: system where
  "example_uploaded =
     upload_rename example_job example_file
       (snd (upload_create ''j1'' ''2025-01-01T00:00:00.000Z'' ''session'' (Some example_file) example_start))"

text \<open>
  A page on which every check is good (the page of the first test of routes.test.ts), and an
  environment in which every fetch returns it.
\<close>

definition perfect_page :: page where
  "perfect_page =
     \<lparr>title_text = ''Perfect SEO Page - 50 Characters Long Title'',
      meta_description = Some ''This is a perfect meta description that is exactly the right length for SEO optimization and provides valuable information about the page content.'',
      meta_robots = Some ''index, follow'',
      og_title = Some ''Perfect SEO Page - Social Media'',
      og_description = Some ''Perfect OG description for social media sharing'',
      og_image = Some ''https://example.com/image.jpg'',
      twitter_card = Some ''summary_large_image'',
      twitter_title = Some ''Perfect SEO Page - Twitter'',
      twitter_description = Some ''Perfect Twitter description'',
      twitter_image = Some ''https://example.com/twitter-image.jpg''\<rparr>"

definition perfect_env :: env where
  "perfect_env = example_env\<lparr>fetch := (\<lambda>k u. Some (Fulfilled perfect_page))\<rparr>"

section \<open>Properties of the scoring engine\<close>

lemma acc_inv_step: "acc_inv names acc \<Longrightarrow> step_ok n acc acc' \<Longrightarrow> acc_inv (names @ [n]) acc'"
  unfolding acc_inv_def step_ok_def by (elim exE conjE) (simp, auto)

lemma check_present_step: "step_ok n acc (check_present n v shown mf cat mi gf acc)"
  by (simp add: step_ok_def check_present_def push_tag_def push_breakdown_def deduct_def not_good_def)

lemma check_title_step: "step_ok ''Title'' acc (check_title pg acc)"
  by (simp add: step_ok_def check_title_def Let_def push_tag_def push_breakdown_def deduct_def
      not_good_def)

lemma check_description_step: "step_ok ''Meta Description'' acc (check_description pg acc)"
  by (simp add: step_ok_def check_description_def Let_def push_tag_def push_breakdown_def deduct_def
      not_good_def)

lemma acc_inv_init: "acc_inv [] \<lparr>tags = [], breakdown = [], score = 100\<rparr>"
  by (simp add: acc_inv_def)

lemma run_checks_inv:
  "acc_inv [''Title'', ''Meta Description'', ''Meta Robots'', ''OG Title'', ''OG Description'',
     ''OG Image'', ''Twitter Card'', ''Twitter Title'', ''Twitter Description'', ''Twitter Image'']
     (run_checks pg)"
proof -
  note steps = check_title_step check_description_step check_present_step
  have "acc_inv ([] @ [''Title''] @ [''Meta Description''] @ [''Meta Robots''] @ [''OG Title''] @
     [''OG Description''] @ [''OG Image''] @ [''Twitter Card''] @ [''Twitter Title''] @
     [''Twitter Description''] @ [''Twitter Image'']) (run_checks pg)"
    unfolding run_checks_def check_robots_def check_og_title_def check_og_description_def
      check_og_image_def check_twitter_card_def check_twitter_title_def
      check_twitter_description_def check_twitter_image_def Let_def append_assoc [symmetric]
    by (rule acc_inv_step steps acc_inv_init)+
  then show ?thesis by simp
qed

lemmas check_defs = check_title_def check_description_def check_robots_def check_og_title_def
  check_og_description_def check_og_image_def check_twitter_card_def check_twitter_title_def
  check_twitter_description_def check_twitter_image_def check_present_def attr_trim_def trim_def
  push_tag_def push_breakdown_def deduct_def

text \<open>
  C1, as stated, fails: on the page where no selector finds anything the returned score is not 0
  and the breakdown does not have 9 entries.
\<close>

theorem C1_score_zero_nine_entries_counterexample:
  "\<not> (score (analyzeSeoTags empty_page ''https://example.com'') = 0 \<and>
      length (breakdown (analyzeSeoTags empty_page ''https://example.com'')) = 9)"
  by (simp add: analyzeSeoTags_def run_checks_def Let_def empty_page_def check_defs)

text \<open>
  C1, amended: for a page with no title element, no meta description and none of the other checked
  tags, analyzeSeoTags returns the score 100 - 25 - 20 - 5 * 8 = 15 and a breakdown with exactly
  10 entries, one for each of the ten checks.
\<close>

theorem C1_empty_page_score_15_ten_entries:
  "score (analyzeSeoTags empty_page u) = 15 \<and>
   length (breakdown (analyzeSeoTags empty_page u)) = 10 \<and>
   sum_list (map b_deduction (breakdown (analyzeSeoTags empty_page u))) = 25 + 20 + 5 * 8"
  by (simp add: analyzeSeoTags_def run_checks_def Let_def empty_page_def check_defs)

theorem C1_empty_page_witness:
  "score (analyzeSeoTags empty_page ''https://example.com'') = 15 \<and>
   length (breakdown (analyzeSeoTags empty_page ''https://example.com'')) = 10"
  using C1_empty_page_score_15_ten_entries [of "''https://example.com''"] by simp

text \<open>
  C6: for every parsed page, the score returned by analyzeSeoTags is max(0, 100 - the sum of the
  deductions recorded in its breakdown), and it lies between 0 and 100.
\<close>

theorem C6_score_is_clamped_remainder:
  "score (analyzeSeoTags pg u) =
     max 0 (100 - sum_list (map b_deduction (breakdown (analyzeSeoTags pg u)))) \<and>
   0 \<le> score (analyzeSeoTags pg u) \<and> score (analyzeSeoTags pg u) \<le> 100"
proof -
  have inv: "acc_inv [''Title'', ''Meta Description'', ''Meta Robots'', ''OG Title'',
     ''OG Description'', ''OG Image'', ''Twitter Card'', ''Twitter Title'', ''Twitter Description'',
     ''Twitter Image''] (run_checks pg)"
    by (rule run_checks_inv)
  then have s: "score (run_checks pg) = 100 - sum_list (map b_deduction (breakdown (run_checks pg)))"
    and nn: "\<forall>b \<in> set (breakdown (run_checks pg)). 0 \<le> b_deduction b"
    by (simp_all add: acc_inv_def)
  from nn have "0 \<le> sum_list (map b_deduction (breakdown (run_checks pg)))"
    by (intro sum_list_nonneg) auto
  with s show ?thesis by (simp add: analyzeSeoTags_def Let_def)
qed

theorem C6_score_witness:
  "score (analyzeSeoTags (empty_page\<lparr>title_text := ''Short title''\<rparr>) ''https://example.com'') = 30 \<and>
   sum_list (map b_deduction (breakdown
     (analyzeSeoTags (empty_page\<lparr>title_text := ''Short title''\<rparr>) ''https://example.com''))) = 70"
  using C6_score_is_clamped_remainder [of "empty_page\<lparr>title_text := ''Short title''\<rparr>" "''https://example.com''"]
  by (simp add: analyzeSeoTags_def run_checks_def Let_def empty_page_def check_defs is_space_def)

text \<open>
  C9: for every parsed page, analyzeSeoTags returns exactly ten tag evaluations, in the order
  Title, Meta Description, Meta Robots, OG Title, OG Description, OG Image, Twitter Card,
  Twitter Title, Twitter Description, Twitter Image; the breakdown has exactly one entry, with the
  same deduction, for each tag whose status is not good; and a missing Twitter image is reported
  as the last tag and the last breakdown entry with a deduction of 5.
\<close>

theorem C9_ten_tags_in_order:
  "map tag (tags (analyzeSeoTags pg u)) =
     [''Title'', ''Meta Description'', ''Meta Robots'', ''OG Title'', ''OG Description'',
      ''OG Image'', ''Twitter Card'', ''Twitter Title'', ''Twitter Description'', ''Twitter Image''] \<and>
   length (tags (analyzeSeoTags pg u)) = 10 \<and>
   length (breakdown (analyzeSeoTags pg u)) =
     length (filter (\<lambda>t. status t \<noteq> Good) (tags (analyzeSeoTags pg u))) \<and>
   map b_deduction (breakdown (analyzeSeoTags pg u)) =
     map deduction (filter (\<lambda>t. status t \<noteq> Good) (tags (analyzeSeoTags pg u))) \<and>
   (attr_trim (twitter_image pg) = [] \<longrightarrow>
      last (tags (analyzeSeoTags pg u)) =
        \<lparr>tag = ''Twitter Image'', content = ''-'', status = Missing,
         feedback = ''Twitter image is missing'', deduction = 5\<rparr> \<and>
      last (breakdown (analyzeSeoTags pg u)) =
        \<lparr>b_tag = ''Twitter Card'', issue = ''Missing Twitter image'', b_deduction = 5\<rparr>)"
proof -
  have inv: "acc_inv [''Title'', ''Meta Description'', ''Meta Robots'', ''OG Title'',
     ''OG Description'', ''OG Image'', ''Twitter Card'', ''Twitter Title'', ''Twitter Description'',
     ''Twitter Image''] (run_checks pg)"
    by (rule run_checks_inv)
  then have names: "map tag (tags (run_checks pg)) =
     [''Title'', ''Meta Description'', ''Meta Robots'', ''OG Title'', ''OG Description'',
      ''OG Image'', ''Twitter Card'', ''Twitter Title'', ''Twitter Description'', ''Twitter Image'']"
    and ded: "map b_deduction (breakdown (run_checks pg)) =
      map deduction (filter (\<lambda>t. status t \<noteq> Good) (tags (run_checks pg)))"
    by (simp_all add: acc_inv_def not_good_def [abs_def])
  have "length (map tag (tags (run_checks pg))) = 10"
    unfolding names by simp
  then have len: "length (tags (run_checks pg)) = 10"
    by simp
  have "length (map b_deduction (breakdown (run_checks pg))) =
      length (map deduction (filter (\<lambda>t. status t \<noteq> Good) (tags (run_checks pg))))"
    by (simp only: ded)
  then have blen: "length (breakdown (run_checks pg)) =
      length (filter (\<lambda>t. status t \<noteq> Good) (tags (run_checks pg)))"
    by simp
  have tw: "attr_trim (twitter_image pg) = [] \<Longrightarrow>
      last (tags (run_checks pg)) =
        \<lparr>tag = ''Twitter Image'', content = ''-'', status = Missing,
         feedback = ''Twitter image is missing'', deduction = 5\<rparr> \<and>
      last (breakdown (run_checks pg)) =
        \<lparr>b_tag = ''Twitter Card'', issue = ''Missing Twitter image'', b_deduction = 5\<rparr>"
    by (simp add: run_checks_def check_twitter_image_def check_present_def Let_def push_tag_def
        push_breakdown_def deduct_def)
  from names len blen ded tw show ?thesis
    by (simp add: analyzeSeoTags_def Let_def)
qed

theorem C9_ten_tags_witness:
  "attr_trim (twitter_image empty_page) = [] \<and>
   length (tags (analyzeSeoTags empty_page ''https://example.com'')) = 10 \<and>
   last (breakdown (analyzeSeoTags empty_page ''https://example.com'')) =
     \<lparr>b_tag = ''Twitter Card'', issue = ''Missing Twitter image'', b_deduction = 5\<rparr>"
  using C9_ten_tags_in_order [of empty_page "''https://example.com''"]
  by (simp add: empty_page_def attr_trim_def)

section \<open>Properties of the job store and of the CSV validation\<close>

text \<open>
  C10: updateBulkJob with a job id that is not in the store returns \<open>undefined\<close> and leaves the
  store as it is; with an id that is in the store it returns and stores a record in which exactly
  the supplied fields are overwritten, and it leaves every other job and the URL results as they
  are.
\<close>

theorem C10_updateBulkJob_frame:
  
  "(bulkJobs st jobId = None \<longrightarrow> updateBulkJob jobId updates st = (None, st)) \<and>
   (\<forall>job. bulkJobs st jobId = Some job \<longrightarrow>
      (\<exists>job'. updateBulkJob jobId updates st = (Some job', st\<lparr>bulkJobs := (bulkJobs st)(jobId \<mapsto> job')\<rparr>) \<and>
         getBulkJob jobId (snd (updateBulkJob jobId updates st)) = Some job' \<and>
         (\<forall>other. other \<noteq> jobId \<longrightarrow>
            getBulkJob other (snd (updateBulkJob jobId updates st)) = getBulkJob other st) \<and>
         bulkUrlResults (snd (updateBulkJob jobId updates st)) = bulkUrlResults st \<and>
         job_id job' = (case set_id updates of None \<Rightarrow> job_id job | Some v \<Rightarrow> v) \<and>
         userSession job' = (case set_userSession updates of None \<Rightarrow> userSession job | Some v \<Rightarrow> v) \<and>
         filename job' = (case set_filename updates of None \<Rightarrow> filename job | Some v \<Rightarrow> v) \<and>
         totalUrls job' = (case set_totalUrls updates of None \<Rightarrow> totalUrls job | Some v \<Rightarrow> v) \<and>
         processedUrls job' = (case set_processedUrls updates of None \<Rightarrow> processedUrls job | Some v \<Rightarrow> v) \<and>
         job_status job' = (case set_status updates of None \<Rightarrow> job_status job | Some v \<Rightarrow> v) \<and>
         createdAt job' = (case set_createdAt updates of None \<Rightarrow> createdAt job | Some v \<Rightarrow> v) \<and>
         completedAt job' = (case set_completedAt updates of None \<Rightarrow> completedAt job | Some v \<Rightarrow> v) \<and>
         resultFilePath job' = (case set_resultFilePath updates of None \<Rightarrow> resultFilePath job | Some v \<Rightarrow> v)))"
  by (simp add: updateBulkJob_def getBulkJob_def spread_updates_def Let_def)

theorem C10_updateBulkJob_witness:
  "bulkJobs example_store ''j1'' = Some example_job \<and>
   bulkJobs example_store ''j2'' = None \<and>
   updateBulkJob ''j2'' (no_updates\<lparr>set_processedUrls := Some 2\<rparr>) example_store = (None, example_store) \<and>
   (\<exists>job'. getBulkJob ''j1'' (snd (updateBulkJob ''j1'' (no_updates\<lparr>set_processedUrls := Some 2\<rparr>)
                 example_store)) = Some job' \<and>
           processedUrls job' = 2 \<and> totalUrls job' = 3 \<and> job_status job' = Pending)"
proof -
  let ?u = "no_updates\<lparr>set_processedUrls := Some 2\<rparr>"
  have a: "bulkJobs example_store ''j1'' = Some example_job"
    by (simp add: example_store_def)
  have b: "bulkJobs example_store ''j2'' = None"
    by (simp add: example_store_def)
  from C10_updateBulkJob_frame [of example_store "''j2''" ?u] b
  have c: "updateBulkJob ''j2'' ?u example_store = (None, example_store)"
    by blast
  from C10_updateBulkJob_frame [of example_store "''j1''" ?u] a
  obtain job' where "getBulkJob ''j1'' (snd (updateBulkJob ''j1'' ?u example_store)) = Some job'"
    and "totalUrls job' = (case set_totalUrls ?u of None \<Rightarrow> totalUrls example_job | Some v \<Rightarrow> v)"
    and "processedUrls job' = (case set_processedUrls ?u of None \<Rightarrow> processedUrls example_job | Some v \<Rightarrow> v)"
    and "job_status job' = (case set_status ?u of None \<Rightarrow> job_status example_job | Some v \<Rightarrow> v)"
    by blast
  then have "getBulkJob ''j1'' (snd (updateBulkJob ''j1'' ?u example_store)) = Some job' \<and>
      processedUrls job' = 2 \<and> totalUrls job' = 3 \<and> job_status job' = Pending"
    by (simp add: no_updates_def example_job_def)
  with a b c show ?thesis by blast
qed

lemma startsWith_append: "startsWith (p @ s) p"
  by (induction p) auto

lemma startsWith_includes: "startsWith s p \<Longrightarrow> str_includes s p"
  by (cases s) (auto elim: startsWith.elims)

lemma str_includes_append: "str_includes (a @ b @ c) b"
  by (induction a) (auto simp: startsWith_append startsWith_includes)

text \<open>
  C8: validateCSVFile returns an invalid verdict with a reason for a file above 10 MB; for a file
  within the ceiling it returns an invalid verdict whose reason contains "No valid URLs found"
  when no URL is extracted and one whose reason contains "Maximum allowed is 1000 URLs" when more
  than 1000 are; and for 1 to 1000 extracted URLs it returns a valid verdict with exactly that
  count.
\<close>

theorem C8_validateCSVFile_verdicts:
  "fs filePath = Some f \<Longrightarrow>
   (10 * 1024 * 1024 < file_size f \<longrightarrow>
      \<not> valid (validateCSVFile fs filePath) \<and>
      (\<exists>m. error (validateCSVFile fs filePath) = Some m \<and> str_includes m ''exceeds maximum of 10MB'')) \<and>
   (file_size f \<le> 10 * 1024 * 1024 \<longrightarrow>
      (\<forall>urls. parseCSVUrls f = Inr urls \<longrightarrow>
         (length urls = 0 \<longrightarrow>
            \<not> valid (validateCSVFile fs filePath) \<and>
            (\<exists>m. error (validateCSVFile fs filePath) = Some m \<and> str_includes m ''No valid URLs found'')) \<and>
         (1000 < length urls \<longrightarrow>
            \<not> valid (validateCSVFile fs filePath) \<and>
            (\<exists>m. error (validateCSVFile fs filePath) = Some m \<and>
                 str_includes m ''Maximum allowed is 1000 URLs'')) \<and>
         (1 \<le> length urls \<and> length urls \<le> 1000 \<longrightarrow>
            valid (validateCSVFile fs filePath) \<and>
            urlCount (validateCSVFile fs filePath) = Some (length urls) \<and>
            error (validateCSVFile fs filePath) = None)))"
proof -
  assume f: "fs filePath = Some f"
  have big: "str_includes (''File size '' @ toFixed2_MB (file_size f) @ ''MB exceeds maximum of 10MB'')
      ''exceeds maximum of 10MB''"
    using str_includes_append [of "''File size '' @ toFixed2_MB (file_size f) @ ''MB ''" "''exceeds maximum of 10MB''" "[]"]
    by simp
  have none: "str_includes ''No valid URLs found in CSV file. Please ensure your CSV has a column with URLs.''
      ''No valid URLs found''"
    using str_includes_append [of "[]" "''No valid URLs found''" "'' in CSV file. Please ensure your CSV has a column with URLs.''"]
    by simp
  have many: "\<And>n. str_includes (''CSV contains '' @ show_nat n @ '' URLs. Maximum allowed is 1000 URLs per batch.'')
      ''Maximum allowed is 1000 URLs''"
  proof -
    fix n
    show "str_includes (''CSV contains '' @ show_nat n @ '' URLs. Maximum allowed is 1000 URLs per batch.'')
      ''Maximum allowed is 1000 URLs''"
    using str_includes_append [of "''CSV contains '' @ show_nat n @ '' URLs. ''" "''Maximum allowed is 1000 URLs''" "'' per batch.''"]
    by simp
  qed
  show ?thesis
    using f big none many by (auto simp: validateCSVFile_def simp del: str_includes.simps)
qed

lemma example_parse:
  "parseCSVUrls example_upload = Inr [''https://a.com'', ''http://b.com'', ''https://c.org'']"
  by (simp add: example_upload_def parseCSVUrls_def row_url_def Let_def trim_def is_space_def)

theorem C8_validateCSVFile_witness:
  "uploadFiles example_start ''tmp/x'' = Some example_upload \<and>
   file_size example_upload \<le> 10 * 1024 * 1024 \<and>
   parseCSVUrls example_upload = Inr [''https://a.com'', ''http://b.com'', ''https://c.org''] \<and>
   valid (validateCSVFile (uploadFiles example_start) ''tmp/x'') \<and>
   urlCount (validateCSVFile (uploadFiles example_start) ''tmp/x'') = Some 3"
proof -
  have f: "uploadFiles example_start ''tmp/x'' = Some example_upload"
    by (simp add: example_start_def)
  note p = example_parse
  have s: "file_size example_upload \<le> 10 * 1024 * 1024"
    by (simp add: example_upload_def)
  from C8_validateCSVFile_verdicts [of "uploadFiles example_start" "''tmp/x''" example_upload, OF f] s p f
  show ?thesis
    by simp
qed

section \<open>What the runner leaves unchanged\<close>

lemma emit_simps [simp]:
  "storage (emit e sys) = storage sys"
  "processingJobs (emit e sys) = processingJobs sys"
  "uploadFiles (emit e sys) = uploadFiles sys"
  "resultFiles (emit e sys) = resultFiles sys"
  "jobWrites (emit e sys) = jobWrites sys"
  "events (emit e sys) = events sys @ [e]"
  by (simp_all add: emit_def)

lemma storage_updateBulkJob_frame [simp]:
  "processingJobs (snd (storage_updateBulkJob jobId u sys)) = processingJobs sys"
  "uploadFiles (snd (storage_updateBulkJob jobId u sys)) = uploadFiles sys"
  "resultFiles (snd (storage_updateBulkJob jobId u sys)) = resultFiles sys"
  "events (snd (storage_updateBulkJob jobId u sys)) = events sys"
  "bulkUrlResults (storage (snd (storage_updateBulkJob jobId u sys))) = bulkUrlResults (storage sys)"
  by (simp_all add: storage_updateBulkJob_def updateBulkJob_def Let_def split: option.splits)

lemma storage_updateBulkJob_jobs:
  "bulkJobs (storage (snd (storage_updateBulkJob jobId u sys))) =
     (case bulkJobs (storage sys) jobId of
        None \<Rightarrow> bulkJobs (storage sys)
      | Some job \<Rightarrow> (bulkJobs (storage sys))(jobId \<mapsto> spread_updates job u))"
  by (simp add: storage_updateBulkJob_def updateBulkJob_def Let_def split: option.splits)

lemma storage_updateBulkJob_writes:
  "jobWrites (snd (storage_updateBulkJob jobId u sys)) =
     jobWrites sys @ (case bulkJobs (storage sys) jobId of
                        None \<Rightarrow> [] | Some job \<Rightarrow> [(jobId, spread_updates job u)])"
  by (simp add: storage_updateBulkJob_def updateBulkJob_def Let_def split: option.splits)

lemma processUrl_jobs [simp]: "bulkJobs (snd (processUrl env k u jobId st)) = bulkJobs st"
  by (simp add: processUrl_def createBulkUrlResult_def Let_def split: settled.splits)

lemma foldl_processUrl_jobs [simp]:
  "bulkJobs (foldl (\<lambda>st j. snd (processUrl env (f j) (g j) jobId st)) st js) = bulkJobs st"
  by (induction js arbitrary: st) simp_all

lemma run_batch_frame [simp]:
  "processingJobs (snd (run_batch env jobId i batch sys)) = processingJobs sys"
  "uploadFiles (snd (run_batch env jobId i batch sys)) = uploadFiles sys"
  "resultFiles (snd (run_batch env jobId i batch sys)) = resultFiles sys"
  "events (snd (run_batch env jobId i batch sys)) = events sys"
  "jobWrites (snd (run_batch env jobId i batch sys)) = jobWrites sys"
  "bulkJobs (storage (snd (run_batch env jobId i batch sys))) = bulkJobs (storage sys)"
  "length (fst (run_batch env jobId i batch sys)) = length batch"
  by (simp_all add: run_batch_def Let_def)

lemma settle_loop_frame:
  "processingJobs (fst (settle_loop env jobId n i j prs (sys, results))) = processingJobs sys \<and>
   uploadFiles (fst (settle_loop env jobId n i j prs (sys, results))) = uploadFiles sys \<and>
   resultFiles (fst (settle_loop env jobId n i j prs (sys, results))) = resultFiles sys \<and>
   bulkUrlResults (storage (fst (settle_loop env jobId n i j prs (sys, results)))) =
     bulkUrlResults (storage sys) \<and>
   dom (bulkJobs (storage (fst (settle_loop env jobId n i j prs (sys, results))))) =
     dom (bulkJobs (storage sys))"
proof (induction prs arbitrary: sys results j)
  case Nil
  show ?case by simp
next
  case (Cons p prs)
  obtain u r where p: "p = (u, r)" by (cases p)
  show ?case
    unfolding p by (simp add: Let_def Cons.IH storage_updateBulkJob_jobs split: option.splits) auto
qed

lemma batch_loop_frame:
  "processingJobs (fst (batch_loop env jobId urls i (sys, results))) = processingJobs sys \<and>
   uploadFiles (fst (batch_loop env jobId urls i (sys, results))) = uploadFiles sys \<and>
   resultFiles (fst (batch_loop env jobId urls i (sys, results))) = resultFiles sys \<and>
   dom (bulkJobs (storage (fst (batch_loop env jobId urls i (sys, results))))) =
     dom (bulkJobs (storage sys))"
proof (induction env jobId urls i "(sys, results)" arbitrary: sys results rule: batch_loop.induct)
  case (1 env jobId urls i sys results)
  show ?case
  proof (cases "i < length urls")
    case False
    then show ?thesis by (simp add: batch_loop.simps)
  next
    case True
    obtain batchResults sys1 where rb:
      "run_batch env jobId i (take batchSize (drop i urls)) sys = (batchResults, sys1)"
      by (cases "run_batch env jobId i (take batchSize (drop i urls)) sys")
    obtain sys2 results2 where sl:
      "settle_loop env jobId (length urls) i 0 (zip (take batchSize (drop i urls)) batchResults) (sys1, results)
        = (sys2, results2)"
      by (cases "settle_loop env jobId (length urls) i 0 (zip (take batchSize (drop i urls)) batchResults) (sys1, results)")
    have s1: "sys1 = snd (run_batch env jobId i (take batchSize (drop i urls)) sys)"
      using rb by simp
    have s2: "sys2 = fst (settle_loop env jobId (length urls) i 0 (zip (take batchSize (drop i urls)) batchResults) (sys1, results))"
      using sl by simp
    have step: "batch_loop env jobId urls i (sys, results) =
        batch_loop env jobId urls (i + batchSize) (sys2, results2)"
      using True rb sl by (subst batch_loop.simps) (simp add: Let_def)
    have IH: "processingJobs (fst (batch_loop env jobId urls (i + batchSize) (sys2, results2))) = processingJobs sys2 \<and>
   uploadFiles (fst (batch_loop env jobId urls (i + batchSize) (sys2, results2))) = uploadFiles sys2 \<and>
   resultFiles (fst (batch_loop env jobId urls (i + batchSize) (sys2, results2))) = resultFiles sys2 \<and>
   dom (bulkJobs (storage (fst (batch_loop env jobId urls (i + batchSize) (sys2, results2))))) =
     dom (bulkJobs (storage sys2))"
      using "1.hyps" [OF True refl rb [symmetric] sl] .
    show ?thesis
      unfolding step using IH by (simp add: s2 settle_loop_frame s1)
  qed
qed

section \<open>The effect of the loops\<close>

lemma batch_loop_step:
  "i < length urls \<Longrightarrow>
   batch_loop env jobId urls i acc = batch_loop env jobId urls (i + batchSize) (batch_step env jobId urls i acc)"
proof -
  assume lt: "i < length urls"
  obtain sys results where acc: "acc = (sys, results)" by (cases acc)
  show ?thesis
    unfolding acc by (subst batch_loop.simps) (simp add: lt batch_step_def Let_def split: prod.splits)
qed

lemma batch_loop_done: "\<not> i < length urls \<Longrightarrow> batch_loop env jobId urls i acc = acc"
  by (cases acc) (simp add: batch_loop.simps)

lemma processUrl_fst: "fst (processUrl env k u jobId st) = outcome env jobId k u"
  by (simp add: processUrl_def outcome_def Let_def split: settled.splits)

lemma processUrl_snd:
  "snd (processUrl env k u jobId st) =
     st\<lparr>bulkUrlResults := (bulkUrlResults st)(resultId env k \<mapsto> stored_result env jobId k u)\<rparr>"
  by (simp add: processUrl_def stored_result_def createBulkUrlResult_def Let_def split: settled.splits)

lemma spread_processed [simp]:
  "spread_updates job (no_updates\<lparr>set_processedUrls := Some c\<rparr>) = job\<lparr>processedUrls := c\<rparr>"
  by (cases job) (simp add: spread_updates_def no_updates_def)

lemma upt_from_Suc: "[a ..< a + Suc n] = a # [a + 1 ..< a + 1 + n]"
  by (subst upt_rec) simp

text \<open>The rows and the job record after the inner loop.\<close>

lemma settle_loop_rows:
  "\<forall>m < length prs. prs ! m = (urls ! (i + j + m), outcome env jobId (i + j + m) (urls ! (i + j + m))) \<Longrightarrow>
   snd (settle_loop env jobId n i j prs (sys, results)) =
     results @ map (final_row env jobId urls) [i + j ..< i + j + length prs]"
proof (induction prs arbitrary: sys results j)
  case Nil
  show ?case by simp
next
  case (Cons p prs)
  from Cons.prems have p: "p = (urls ! (i + j), outcome env jobId (i + j) (urls ! (i + j)))"
    by auto
  from Cons.prems have rest:
    "\<forall>m < length prs. prs ! m = (urls ! (i + (j + 1) + m), outcome env jobId (i + (j + 1) + m) (urls ! (i + (j + 1) + m)))"
    by auto
  have upt: "[i + j ..< i + j + length (p # prs)] = (i + j) # [i + (j + 1) ..< i + (j + 1) + length prs]"
    using upt_from_Suc [of "i + j" "length prs"] by (simp add: add.assoc)
  obtain sys2 where unfold: "settle_loop env jobId n i j (p # prs) (sys, results) =
      settle_loop env jobId n i (j + 1) prs (sys2, results @ [final_row env jobId urls (i + j)])"
    by (simp add: p Let_def final_row_def)
  have "snd (settle_loop env jobId n i j (p # prs) (sys, results)) =
      (results @ [final_row env jobId urls (i + j)]) @
        map (final_row env jobId urls) [i + (j + 1) ..< i + (j + 1) + length prs]"
    unfolding unfold by (rule Cons.IH [OF rest])
  also have "\<dots> = results @ map (final_row env jobId urls) ((i + j) # [i + (j + 1) ..< i + (j + 1) + length prs])"
    by simp
  finally show ?case
    by (simp only: upt)
qed

lemma settle_loop_job:
  "bulkJobs (storage sys) jobId = Some job \<Longrightarrow>
   bulkJobs (storage (fst (settle_loop env jobId n i j prs (sys, results)))) =
     (bulkJobs (storage sys))(jobId \<mapsto> job\<lparr>processedUrls := (if prs = [] then processedUrls job else i + j + length prs)\<rparr>) \<and>
   jobWrites (fst (settle_loop env jobId n i j prs (sys, results))) =
     jobWrites sys @ map (\<lambda>k. (jobId, job\<lparr>processedUrls := k + 1\<rparr>)) [i + j ..< i + j + length prs]"
proof (induction prs arbitrary: sys results j job)
  case Nil
  then show ?case by (simp add: fun_upd_idem)
next
  case (Cons p prs)
  obtain u r where p: "p = (u, r)" by (cases p)
  define sys1 where "sys1 = snd (storage_updateBulkJob jobId (no_updates\<lparr>set_processedUrls := Some (i + j + 1)\<rparr>) sys)"
  define sys2 where "sys2 = emit (JobProgress jobId n (i + j + 1) (percent env (i + j + 1) n)) sys1"
  define job2 where "job2 = job\<lparr>processedUrls := i + j + 1\<rparr>"
  define results2 where "results2 = results @ [case r of Fulfilled v \<Rightarrow> v | Rejected reason \<Rightarrow> errorResult u (rowDate env (i + j)) reason]"
  have j2: "bulkJobs (storage sys2) jobId = Some job2"
    and jm: "bulkJobs (storage sys2) = (bulkJobs (storage sys))(jobId \<mapsto> job2)"
    and w2: "jobWrites sys2 = jobWrites sys @ [(jobId, job2)]"
    using Cons.prems
    by (simp_all add: sys2_def sys1_def job2_def storage_updateBulkJob_jobs storage_updateBulkJob_writes)
  have upt: "[i + j ..< i + j + length (p # prs)] = (i + j) # [i + (j + 1) ..< i + (j + 1) + length prs]"
    using upt_from_Suc [of "i + j" "length prs"] by (simp add: add.assoc)
  have unfold: "settle_loop env jobId n i j (p # prs) (sys, results) =
      settle_loop env jobId n i (j + 1) prs (sys2, results2)"
    by (simp add: p Let_def sys2_def sys1_def results2_def)
  note IH = Cons.IH [OF j2, of "j + 1" results2]
  have upd: "job2\<lparr>processedUrls := c\<rparr> = job\<lparr>processedUrls := c\<rparr>" for c
    by (simp add: job2_def)
  have m: "bulkJobs (storage (fst (settle_loop env jobId n i (j + 1) prs (sys2, results2)))) =
      (bulkJobs (storage sys2))(jobId \<mapsto> job2\<lparr>processedUrls :=
         (if prs = [] then processedUrls job2 else i + (j + 1) + length prs)\<rparr>)"
    using IH by (rule conjunct1)
  have a: "bulkJobs (storage (fst (settle_loop env jobId n i j (p # prs) (sys, results)))) =
      (bulkJobs (storage sys))(jobId \<mapsto> job\<lparr>processedUrls := i + j + length (p # prs)\<rparr>)"
    unfolding unfold m jm by (cases "prs = []") (simp_all add: job2_def)
  have "jobWrites (fst (settle_loop env jobId n i j (p # prs) (sys, results))) =
      (jobWrites sys @ [(jobId, job2)]) @
        map (\<lambda>k. (jobId, job\<lparr>processedUrls := k + 1\<rparr>)) [i + (j + 1) ..< i + (j + 1) + length prs]"
    unfolding unfold using IH by (simp only: w2 upd)
  also have "\<dots> = jobWrites sys @
      map (\<lambda>k. (jobId, job\<lparr>processedUrls := k + 1\<rparr>)) ((i + j) # [i + (j + 1) ..< i + (j + 1) + length prs])"
    by (simp add: job2_def)
  finally have b: "jobWrites (fst (settle_loop env jobId n i j (p # prs) (sys, results))) =
      jobWrites sys @ map (\<lambda>k. (jobId, job\<lparr>processedUrls := k + 1\<rparr>)) [i + j ..< i + j + length (p # prs)]"
    by (simp only: upt)
  from a b show ?case by simp
qed

lemma run_batch_fst:
  "fst (run_batch env jobId i batch sys) = map (\<lambda>j. outcome env jobId (i + j) (batch ! j)) [0..<length batch]"
  by (simp add: run_batch_def Let_def processUrl_fst)

lemma batch_pairs:
  assumes "batch = take batchSize (drop i urls)"
  shows "\<forall>m < length (zip batch (fst (run_batch env jobId i batch sys))).
           zip batch (fst (run_batch env jobId i batch sys)) ! m =
             (urls ! (i + 0 + m), outcome env jobId (i + 0 + m) (urls ! (i + 0 + m)))"
  by (auto simp: run_batch_fst assms nth_drop)

lemma batch_length:
  "i < length urls \<Longrightarrow>
   length (zip (take batchSize (drop i urls)) (fst (run_batch env jobId i (take batchSize (drop i urls)) sys))) =
     min batchSize (length urls - i)"
  by (simp add: run_batch_fst)

lemma batch_step_rows:
  "i < length urls \<Longrightarrow>
   snd (batch_step env jobId urls i (sys, results)) =
     results @ map (final_row env jobId urls) [i ..< i + min batchSize (length urls - i)]"
proof -
  assume lt: "i < length urls"
  let ?batch = "take batchSize (drop i urls)"
  let ?sys1 = "snd (run_batch env jobId i ?batch sys)"
  let ?prs = "zip ?batch (fst (run_batch env jobId i ?batch sys))"
  have "snd (settle_loop env jobId (length urls) i 0 ?prs (?sys1, results)) =
      results @ map (final_row env jobId urls) [i + 0 ..< i + 0 + length ?prs]"
    by (rule settle_loop_rows [OF batch_pairs [OF refl]])
  then show ?thesis
    unfolding batch_step_def fst_conv snd_conv batch_length [OF lt] by simp
qed

lemma batch_step_job:
  "i < length urls \<Longrightarrow> bulkJobs (storage sys) jobId = Some job \<Longrightarrow>
   bulkJobs (storage (fst (batch_step env jobId urls i (sys, results)))) =
     (bulkJobs (storage sys))(jobId \<mapsto> job\<lparr>processedUrls := i + min batchSize (length urls - i)\<rparr>) \<and>
   jobWrites (fst (batch_step env jobId urls i (sys, results))) =
     jobWrites sys @ map (\<lambda>k. (jobId, job\<lparr>processedUrls := k + 1\<rparr>)) [i ..< i + min batchSize (length urls - i)]"
proof -
  assume lt: "i < length urls" and job: "bulkJobs (storage sys) jobId = Some job"
  let ?batch = "take batchSize (drop i urls)"
  let ?sys1 = "snd (run_batch env jobId i ?batch sys)"
  let ?prs = "zip ?batch (fst (run_batch env jobId i ?batch sys))"
  have j1: "bulkJobs (storage ?sys1) jobId = Some job"
    using job by simp
  have len: "length ?prs = min batchSize (length urls - i)"
    using lt by (rule batch_length)
  have "0 < min batchSize (length urls - i)"
    using lt by (simp add: batchSize_def)
  then have "0 < length ?prs"
    by (simp only: len)
  then have ne: "?prs \<noteq> []"
    by (rule iffD1 [OF length_greater_0_conv])
  show ?thesis
    unfolding batch_step_def fst_conv snd_conv
    using settle_loop_job [OF j1, where env = env and n = "length urls" and i = i and j = 0
        and prs = ?prs and results = results] ne
    by (simp add: len min.commute)
qed

lemma upt_split: "i \<le> j \<Longrightarrow> j \<le> n \<Longrightarrow> [i..<j] @ [j..<n] = [i..<n]"
  by (metis le_Suc_ex upt_add_eq_append)

lemma batch_upt:
  "i < length urls \<Longrightarrow>
   [i ..< i + min batchSize (length urls - i)] @ [i + batchSize ..< length urls] = [i ..< length urls]"
proof (cases "i + batchSize \<le> length urls")
  case True
  assume "i < length urls"
  with True have "min batchSize (length urls - i) = batchSize" by simp
  with True show ?thesis by (simp add: upt_split)
next
  case False
  assume "i < length urls"
  with False have "i + min batchSize (length urls - i) = length urls" by simp
  with False show ?thesis by simp
qed

lemma batch_loop_rows:
  "snd (batch_loop env jobId urls i (sys, results)) =
     results @ map (final_row env jobId urls) [i ..< length urls]"
proof (induction "length urls - i" arbitrary: i sys results rule: less_induct)
  case less
  show ?case
  proof (cases "i < length urls")
    case False
    then show ?thesis by (simp add: batch_loop_done)
  next
    case True
    obtain sys' results' where st: "batch_step env jobId urls i (sys, results) = (sys', results')"
      by (cases "batch_step env jobId urls i (sys, results)")
    have r': "results' = results @ map (final_row env jobId urls) [i ..< i + min batchSize (length urls - i)]"
      using batch_step_rows [OF True, where env = env and jobId = jobId and sys = sys
          and results = results] st by simp
    have dec: "length urls - (i + batchSize) < length urls - i"
      using True by (simp add: batchSize_def)
    have "snd (batch_loop env jobId urls i (sys, results)) =
        results' @ map (final_row env jobId urls) [i + batchSize ..< length urls]"
      unfolding batch_loop_step [OF True] st by (rule less [OF dec])
    also have "\<dots> = results @ map (final_row env jobId urls)
        ([i ..< i + min batchSize (length urls - i)] @ [i + batchSize ..< length urls])"
      by (simp add: r')
    finally show ?thesis
      by (simp only: batch_upt [OF True])
  qed
qed

lemma batch_loop_job:
  "bulkJobs (storage sys) jobId = Some job \<Longrightarrow>
   bulkJobs (storage (fst (batch_loop env jobId urls i (sys, results)))) =
     (bulkJobs (storage sys))(jobId \<mapsto> job\<lparr>processedUrls :=
        (if i < length urls then length urls else processedUrls job)\<rparr>) \<and>
   jobWrites (fst (batch_loop env jobId urls i (sys, results))) =
     jobWrites sys @ map (\<lambda>k. (jobId, job\<lparr>processedUrls := k + 1\<rparr>)) [i ..< length urls]"
proof (induction "length urls - i" arbitrary: i sys results job rule: less_induct)
  case less
  show ?case
  proof (cases "i < length urls")
    case False
    then show ?thesis using less.prems by (simp add: batch_loop_done fun_upd_idem)
  next
    case True
    obtain sys' results' where st: "batch_step env jobId urls i (sys, results) = (sys', results')"
      by (cases "batch_step env jobId urls i (sys, results)")
    define job' where "job' = job\<lparr>processedUrls := i + min batchSize (length urls - i)\<rparr>"
    note bs = batch_step_job [OF True less.prems, where env = env and results = results,
        unfolded st fst_conv, folded job'_def]
    have m': "bulkJobs (storage sys') = (bulkJobs (storage sys))(jobId \<mapsto> job')"
      and w': "jobWrites sys' = jobWrites sys @
          map (\<lambda>k. (jobId, job\<lparr>processedUrls := k + 1\<rparr>)) [i ..< i + min batchSize (length urls - i)]"
      using bs by simp_all
    have j': "bulkJobs (storage sys') jobId = Some job'"
      by (simp add: m')
    have upd: "job'\<lparr>processedUrls := c\<rparr> = job\<lparr>processedUrls := c\<rparr>" for c
      by (simp add: job'_def)
    have dec: "length urls - (i + batchSize) < length urls - i"
      using True by (simp add: batchSize_def)
    note IH = less.hyps [OF dec j', where results = results', unfolded upd]
    have fin: "\<not> i + batchSize < length urls \<Longrightarrow> processedUrls job' = length urls"
      using True by (simp add: job'_def)
    have a: "bulkJobs (storage (fst (batch_loop env jobId urls i (sys, results)))) =
        (bulkJobs (storage sys))(jobId \<mapsto> job\<lparr>processedUrls := length urls\<rparr>)"
      unfolding batch_loop_step [OF True] st conjunct1 [OF IH] m'
      using fin by (cases "i + batchSize < length urls") (simp_all add: job'_def)
    have "jobWrites (fst (batch_loop env jobId urls i (sys, results))) =
        (jobWrites sys @ map (\<lambda>k. (jobId, job\<lparr>processedUrls := k + 1\<rparr>)) [i ..< i + min batchSize (length urls - i)]) @
          map (\<lambda>k. (jobId, job\<lparr>processedUrls := k + 1\<rparr>)) [i + batchSize ..< length urls]"
      unfolding batch_loop_step [OF True] st conjunct2 [OF IH] w' ..
    also have "\<dots> = jobWrites sys @ map (\<lambda>k. (jobId, job\<lparr>processedUrls := k + 1\<rparr>))
        ([i ..< i + min batchSize (length urls - i)] @ [i + batchSize ..< length urls])"
      by simp
    finally have b: "jobWrites (fst (batch_loop env jobId urls i (sys, results))) =
        jobWrites sys @ map (\<lambda>k. (jobId, job\<lparr>processedUrls := k + 1\<rparr>)) [i ..< length urls]"
      by (simp only: batch_upt [OF True])
    from a b True show ?thesis by simp
  qed
qed

lemma spread_processing [simp]:
  "spread_updates job (no_updates\<lparr>set_status := Some Processing, set_processedUrls := Some 0\<rparr>) =
     job\<lparr>job_status := Processing, processedUrls := 0\<rparr>"
  by (cases job) (simp add: spread_updates_def no_updates_def)

lemma spread_completed [simp]:
  "spread_updates job (no_updates\<lparr>set_status := Some Completed, set_completedAt := Some (Some d),
       set_resultFilePath := Some (Some p)\<rparr>) =
     job\<lparr>job_status := Completed, completedAt := Some d, resultFilePath := Some p\<rparr>"
  by (cases job) (simp add: spread_updates_def no_updates_def)

lemma spread_failed [simp]:
  "spread_updates job (no_updates\<lparr>set_status := Some Failed, set_completedAt := Some (Some d)\<rparr>) =
     job\<lparr>job_status := Failed, completedAt := Some d\<rparr>"
  by (cases job) (simp add: spread_updates_def no_updates_def)

lemma spread_cancelled [simp]:
  "spread_updates job (no_updates\<lparr>set_status := Some Failed\<rparr>) = job\<lparr>job_status := Failed\<rparr>"
  by (cases job) (simp add: spread_updates_def no_updates_def)

lemma processJob_enter_simps:
  "processingJobs (processJob_enter jobId sys) = insert jobId (processingJobs sys)"
  "storage (processJob_enter jobId sys) = storage sys"
  "uploadFiles (processJob_enter jobId sys) = uploadFiles sys"
  "resultFiles (processJob_enter jobId sys) = resultFiles sys"
  "jobWrites (processJob_enter jobId sys) = jobWrites sys"
  "events (processJob_enter jobId sys) = events sys @ [JobStarted jobId]"
  by (simp_all add: processJob_enter_def emit_def)

lemma claimed_simps:
  "processingJobs (claimed jobId sys) = insert jobId (processingJobs sys)"
  "uploadFiles (claimed jobId sys) = uploadFiles sys"
  "resultFiles (claimed jobId sys) = resultFiles sys"
  "bulkUrlResults (storage (claimed jobId sys)) = bulkUrlResults (storage sys)"
  "bulkJobs (storage sys) jobId = Some job \<Longrightarrow>
     bulkJobs (storage (claimed jobId sys)) =
       (bulkJobs (storage sys))(jobId \<mapsto> job\<lparr>job_status := Processing, processedUrls := 0\<rparr>)"
  "bulkJobs (storage sys) jobId = Some job \<Longrightarrow>
     jobWrites (claimed jobId sys) =
       jobWrites sys @ [(jobId, job\<lparr>job_status := Processing, processedUrls := 0\<rparr>)]"
  by (simp_all add: claimed_def storage_updateBulkJob_jobs storage_updateBulkJob_writes
      processJob_enter_simps)

lemma looped_rows: "snd (batch_loop env jobId urls 0 (claimed jobId sys, [])) = all_rows env jobId urls"
  by (simp add: batch_loop_rows all_rows_def)

lemma looped_simps:
  "processingJobs (looped env jobId urls sys) = insert jobId (processingJobs sys)"
  "uploadFiles (looped env jobId urls sys) = uploadFiles sys"
  "resultFiles (looped env jobId urls sys) = resultFiles sys"
  by (simp_all add: looped_def batch_loop_frame claimed_simps)

lemma looped_job:
  assumes "bulkJobs (storage sys) jobId = Some job"
  shows "bulkJobs (storage (looped env jobId urls sys)) =
           (bulkJobs (storage sys))(jobId \<mapsto> job\<lparr>job_status := Processing, processedUrls := length urls\<rparr>)"
    and "jobWrites (looped env jobId urls sys) =
           jobWrites sys @ [(jobId, job\<lparr>job_status := Processing, processedUrls := 0\<rparr>)] @
             map (\<lambda>k. (jobId, job\<lparr>job_status := Processing, processedUrls := k + 1\<rparr>)) [0 ..< length urls]"
proof -
  have j1: "bulkJobs (storage (claimed jobId sys)) jobId = Some (job\<lparr>job_status := Processing, processedUrls := 0\<rparr>)"
    by (simp add: claimed_simps(5) [OF assms])
  note bl = batch_loop_job [OF j1, where env = env and urls = urls and i = 0 and results = "[]"]
  show "bulkJobs (storage (looped env jobId urls sys)) =
           (bulkJobs (storage sys))(jobId \<mapsto> job\<lparr>job_status := Processing, processedUrls := length urls\<rparr>)"
    unfolding looped_def conjunct1 [OF bl] claimed_simps(5) [OF assms]
    by (cases "urls = []") simp_all
  show "jobWrites (looped env jobId urls sys) =
           jobWrites sys @ [(jobId, job\<lparr>job_status := Processing, processedUrls := 0\<rparr>)] @
             map (\<lambda>k. (jobId, job\<lparr>job_status := Processing, processedUrls := k + 1\<rparr>)) [0 ..< length urls]"
    unfolding looped_def conjunct2 [OF bl] claimed_simps(6) [OF assms]
    by simp
qed

text \<open>The four ways a run on a stored job goes.\<close>

lemma processJob_no_file:
  assumes "jobId \<notin> processingJobs sys" "bulkJobs (storage sys) jobId = Some job"
    and "uploadFiles sys (upload_path jobId) = None"
  shows "processJob env jobId sys = None"
  using assms
  by (simp add: processJob_def processJob_try_def getBulkJob_def Let_def processJob_enter_simps)

lemma processJob_parse_error:
  assumes "jobId \<notin> processingJobs sys" "bulkJobs (storage sys) jobId = Some job"
    and "uploadFiles sys (upload_path jobId) = Some f" "parseCSVUrls f = Inl e"
  shows "processJob env jobId sys =
     Some ((emit (JobFailed jobId (ErrorObj e))
             (snd (storage_updateBulkJob jobId
                (no_updates\<lparr>set_status := Some Failed, set_completedAt := Some (Some (finishDate env))\<rparr>)
                (claimed jobId sys))))\<lparr>processingJobs := processingJobs sys\<rparr>)"
  using assms
  by (simp add: processJob_def processJob_try_def getBulkJob_def Let_def claimed_def [symmetric]
      processJob_enter_simps processJob_finally_def
      claimed_simps)

lemma processJob_write_error:
  assumes "jobId \<notin> processingJobs sys" "bulkJobs (storage sys) jobId = Some job"
    and "uploadFiles sys (upload_path jobId) = Some f" "parseCSVUrls f = Inr urls"
    and "writeError env = Some e"
  shows "processJob env jobId sys =
     Some ((emit (JobFailed jobId (ErrorObj e))
             (snd (storage_updateBulkJob jobId
                (no_updates\<lparr>set_status := Some Failed, set_completedAt := Some (Some (finishDate env))\<rparr>)
                (looped env jobId urls sys))))\<lparr>processingJobs := processingJobs sys\<rparr>)"
  using assms
  by (simp add: processJob_def processJob_try_def getBulkJob_def Let_def claimed_def [symmetric]
      processJob_enter_simps processJob_finally_def
      claimed_simps case_prod_beta generateResultsCSV_def looped_def [symmetric] looped_simps)

lemma processJob_success:
  assumes "jobId \<notin> processingJobs sys" "bulkJobs (storage sys) jobId = Some job"
    and "uploadFiles sys (upload_path jobId) = Some f" "parseCSVUrls f = Inr urls"
    and "writeError env = None"
  shows "processJob env jobId sys =
     Some ((emit (JobCompleted jobId)
             (snd (storage_updateBulkJob jobId
                (no_updates\<lparr>set_status := Some Completed, set_completedAt := Some (Some (finishDate env)),
                   set_resultFilePath := Some (Some (result_path jobId))\<rparr>)
                ((looped env jobId urls sys)\<lparr>resultFiles := (resultFiles sys)
                    (result_path jobId \<mapsto> columns # map csv_row (all_rows env jobId urls))\<rparr>))))
           \<lparr>processingJobs := processingJobs sys\<rparr>)"
  using assms
  by (simp add: processJob_def processJob_try_def getBulkJob_def Let_def claimed_def [symmetric]
      processJob_enter_simps processJob_finally_def
      claimed_simps case_prod_beta generateResultsCSV_def looped_def [symmetric] looped_simps
      looped_rows)

lemma processJob_no_job:
  assumes "jobId \<notin> processingJobs sys" "bulkJobs (storage sys) jobId = None"
  shows "processJob env jobId sys =
     Some ((emit (JobFailed jobId (ErrorObj (''Job '' @ jobId @ '' not found'')))
             (emit (JobStarted jobId) sys))\<lparr>processingJobs := processingJobs sys\<rparr>)"
  using assms
  by (simp add: processJob_def processJob_try_def getBulkJob_def Let_def storage_updateBulkJob_def
      updateBulkJob_def emit_def processJob_enter_def processJob_finally_def)

text \<open>The worked example.\<close>

lemma example_created:
  "upload_create ''j1'' ''2025-01-01T00:00:00.000Z'' ''session'' (Some example_file) example_start =
     (Inr example_job,
      snd (upload_create ''j1'' ''2025-01-01T00:00:00.000Z'' ''session'' (Some example_file) example_start))"
proof -
  have "validateCSVFile (uploadFiles example_start) ''tmp/x'' =
      \<lparr>valid = True, error = None, urlCount = Some 3\<rparr>"
    by (simp add: validateCSVFile_def example_start_def example_parse) (simp add: example_upload_def)
  then show ?thesis
    by (simp add: upload_create_def example_file_def Let_def storage_createBulkJob_def
        createBulkJob_def example_job_def)
qed

lemma example_uploaded_simps:
  "''j1'' \<notin> processingJobs example_uploaded"
  "processingJobs example_uploaded = {}"
  "bulkJobs (storage example_uploaded) ''j1'' = Some example_job"
  "uploadFiles example_uploaded (upload_path ''j1'') = Some example_upload"
  "resultFiles example_uploaded = Map.empty"
  "writeError example_env = None"
proof -
  have "validateCSVFile (uploadFiles example_start) ''tmp/x'' =
      \<lparr>valid = True, error = None, urlCount = Some 3\<rparr>"
    by (simp add: validateCSVFile_def example_start_def example_parse) (simp add: example_upload_def)
  then have c: "snd (upload_create ''j1'' ''2025-01-01T00:00:00.000Z'' ''session'' (Some example_file) example_start) =
      example_start\<lparr>storage := (storage example_start)\<lparr>bulkJobs := [''j1'' \<mapsto> example_job]\<rparr>,
        jobWrites := [(''j1'', example_job)]\<rparr>"
    by (simp add: upload_create_def example_file_def Let_def storage_createBulkJob_def
        createBulkJob_def example_job_def example_start_def)
  show "''j1'' \<notin> processingJobs example_uploaded"
    and "processingJobs example_uploaded = {}"
    and "bulkJobs (storage example_uploaded) ''j1'' = Some example_job"
    and "uploadFiles example_uploaded (upload_path ''j1'') = Some example_upload"
    and "resultFiles example_uploaded = Map.empty"
    unfolding example_uploaded_def c
    by (simp_all add: upload_rename_def example_file_def example_start_def example_job_def)
  show "writeError example_env = None"
    by (simp add: example_env_def)
qed

lemma example_created_simps:
  "''j1'' \<notin> processingJobs
     (snd (upload_create ''j1'' ''2025-01-01T00:00:00.000Z'' ''session'' (Some example_file) example_start))"
  "bulkJobs (storage
     (snd (upload_create ''j1'' ''2025-01-01T00:00:00.000Z'' ''session'' (Some example_file) example_start)))
     ''j1'' = Some example_job"
  "uploadFiles
     (snd (upload_create ''j1'' ''2025-01-01T00:00:00.000Z'' ''session'' (Some example_file) example_start))
     (upload_path ''j1'') = None"
proof -
  have "validateCSVFile (uploadFiles example_start) ''tmp/x'' =
      \<lparr>valid = True, error = None, urlCount = Some 3\<rparr>"
    by (simp add: validateCSVFile_def example_start_def example_parse) (simp add: example_upload_def)
  then have c: "snd (upload_create ''j1'' ''2025-01-01T00:00:00.000Z'' ''session'' (Some example_file) example_start) =
      example_start\<lparr>storage := (storage example_start)\<lparr>bulkJobs := [''j1'' \<mapsto> example_job]\<rparr>,
        jobWrites := [(''j1'', example_job)]\<rparr>"
    by (simp add: upload_create_def example_file_def Let_def storage_createBulkJob_def
        createBulkJob_def example_job_def example_start_def)
  show "''j1'' \<notin> processingJobs
     (snd (upload_create ''j1'' ''2025-01-01T00:00:00.000Z'' ''session'' (Some example_file) example_start))"
    and "bulkJobs (storage
     (snd (upload_create ''j1'' ''2025-01-01T00:00:00.000Z'' ''session'' (Some example_file) example_start)))
     ''j1'' = Some example_job"
    and "uploadFiles
     (snd (upload_create ''j1'' ''2025-01-01T00:00:00.000Z'' ''session'' (Some example_file) example_start))
     (upload_path ''j1'') = None"
    unfolding c by (simp_all add: example_start_def upload_path_def)
qed

text \<open>
  C7. The guard: a call of processJob for a job id that is in the processing set returns without
  changing anything (no record written, no progress counted, no file written). A run in flight
  holds the id: a call for an id outside the set puts the id into the set before the \<open>try\<close> block
  starts (\<open>processJob_enter\<close>); the store update, the batch, the inner loop and the outer loop
  leave the set as it is; so the id is in the set of the states \<open>claimed\<close> (the loops start) and
  \<open>looped\<close> (the loops have ended), and a second call of processJob in any of these states, with
  whatever environment, returns that state unchanged. The release: the \<open>finally\<close> block takes the
  id out of the set, and every call that passes the guard is the \<open>try\<close> block run in the state
  of \<open>processJob_enter\<close>, followed by the \<open>catch\<close> block if it throws and by the \<open>finally\<close> block; a
  call that runs and returns leaves the job Completed or Failed and the set as it was before
  the call, which is the set of the run in flight without the id. A call for an
  id outside the set does return when the job is unknown or its upload can be opened; when the
  job is stored and its upload cannot be opened, the call never returns (the run does not
  complete, and the id stays in the set of \<open>claimed\<close>).
\<close>

theorem C7_processJob_guard_and_release:
  "(jobId \<in> processingJobs sys \<longrightarrow> processJob env jobId sys = Some sys) \<and>
   (jobId \<notin> processingJobs sys \<longrightarrow>
      (\<forall>sys'. processJob env jobId sys = Some sys' \<longrightarrow>
         jobId \<notin> processingJobs sys' \<and> \<not> isProcessing jobId sys' \<and>
         processingJobs sys' = processingJobs sys \<and>
         processingJobs sys' = processingJobs (processJob_enter jobId sys) - {jobId} \<and>
         (\<forall>job'. getBulkJob jobId (storage sys') = Some job' \<longrightarrow>
            job_status job' = Completed \<or> job_status job' = Failed))) \<and>
   (jobId \<notin> processingJobs sys \<and>
    (getBulkJob jobId (storage sys) = None \<or> uploadFiles sys (upload_path jobId) \<noteq> None) \<longrightarrow>
      (\<exists>sys'. processJob env jobId sys = Some sys')) \<and>
   (jobId \<notin> processingJobs sys \<and> getBulkJob jobId (storage sys) \<noteq> None \<and>
    uploadFiles sys (upload_path jobId) = None \<longrightarrow>
      processJob env jobId sys = None) \<and>
   jobId \<in> processingJobs (processJob_enter jobId sys) \<and>
   processingJobs (snd (storage_updateBulkJob jobId upd st)) = processingJobs st \<and>
   processingJobs (snd (run_batch env jobId i batch st)) = processingJobs st \<and>
   processingJobs (fst (settle_loop env jobId n i j prs (st, rows))) = processingJobs st \<and>
   processingJobs (fst (batch_loop env jobId urls i (st, rows))) = processingJobs st \<and>
   isProcessing jobId (claimed jobId sys) \<and>
   isProcessing jobId (looped env jobId urls sys) \<and>
   processJob env2 jobId (processJob_enter jobId sys) = Some (processJob_enter jobId sys) \<and>
   processJob env2 jobId (claimed jobId sys) = Some (claimed jobId sys) \<and>
   processJob env2 jobId (looped env jobId urls sys) = Some (looped env jobId urls sys) \<and>
   jobId \<notin> processingJobs (processJob_finally jobId st) \<and>
   (jobId \<notin> processingJobs sys \<longrightarrow>
      processJob env jobId sys =
        (case processJob_try env jobId (processJob_enter jobId sys) of
           Stuck \<Rightarrow> None
         | Returned st' \<Rightarrow> Some (processJob_finally jobId st')
         | Threw err st' \<Rightarrow>
             Some (processJob_finally jobId
                     (emit (JobFailed jobId err)
                        (snd (storage_updateBulkJob jobId
                                (no_updates\<lparr>set_status := Some Failed,
                                   set_completedAt := Some (Some (finishDate env))\<rparr>) st'))))))"
proof -
  have guard: "jobId \<in> processingJobs sys \<longrightarrow> processJob env jobId sys = Some sys"
    by (simp add: processJob_def)
  have inflight:
    "jobId \<in> processingJobs (processJob_enter jobId sys)"
    "processingJobs (snd (storage_updateBulkJob jobId upd st)) = processingJobs st"
    "processingJobs (snd (run_batch env jobId i batch st)) = processingJobs st"
    "processingJobs (fst (settle_loop env jobId n i j prs (st, rows))) = processingJobs st"
    "processingJobs (fst (batch_loop env jobId urls i (st, rows))) = processingJobs st"
    "isProcessing jobId (claimed jobId sys)"
    "isProcessing jobId (looped env jobId urls sys)"
    by (simp_all add: processJob_enter_simps settle_loop_frame batch_loop_frame isProcessing_def
        claimed_simps looped_simps)
  have again:
    "processJob env2 jobId (processJob_enter jobId sys) = Some (processJob_enter jobId sys)"
    "processJob env2 jobId (claimed jobId sys) = Some (claimed jobId sys)"
    "processJob env2 jobId (looped env jobId urls sys) = Some (looped env jobId urls sys)"
    by (simp_all add: processJob_def processJob_enter_simps claimed_simps looped_simps)
  have fin: "jobId \<notin> processingJobs (processJob_finally jobId st)"
    by (simp add: processJob_finally_def)
  have phases: "(jobId \<notin> processingJobs sys \<longrightarrow>
        processJob env jobId sys =
          (case processJob_try env jobId (processJob_enter jobId sys) of
             Stuck \<Rightarrow> None
           | Returned st' \<Rightarrow> Some (processJob_finally jobId st')
           | Threw err st' \<Rightarrow>
               Some (processJob_finally jobId
                       (emit (JobFailed jobId err)
                          (snd (storage_updateBulkJob jobId
                                  (no_updates\<lparr>set_status := Some Failed,
                                     set_completedAt := Some (Some (finishDate env))\<rparr>) st'))))))"
    by (simp add: processJob_def Let_def split: try_result.split)
  have run:
    "(jobId \<notin> processingJobs sys \<longrightarrow>
      (\<forall>sys'. processJob env jobId sys = Some sys' \<longrightarrow>
         jobId \<notin> processingJobs sys' \<and> \<not> isProcessing jobId sys' \<and>
         processingJobs sys' = processingJobs sys \<and>
         processingJobs sys' = processingJobs (processJob_enter jobId sys) - {jobId} \<and>
         (\<forall>job'. getBulkJob jobId (storage sys') = Some job' \<longrightarrow>
            job_status job' = Completed \<or> job_status job' = Failed))) \<and>
     (jobId \<notin> processingJobs sys \<and>
      (getBulkJob jobId (storage sys) = None \<or> uploadFiles sys (upload_path jobId) \<noteq> None) \<longrightarrow>
        (\<exists>sys'. processJob env jobId sys = Some sys')) \<and>
     (jobId \<notin> processingJobs sys \<and> getBulkJob jobId (storage sys) \<noteq> None \<and>
      uploadFiles sys (upload_path jobId) = None \<longrightarrow>
        processJob env jobId sys = None)"
  proof (cases "jobId \<in> processingJobs sys")
    case True
    then show ?thesis by simp
  next
    case notin: False
    show ?thesis
    proof (cases "bulkJobs (storage sys) jobId")
      case None
      show ?thesis
        using notin
        by (simp add: processJob_no_job [OF notin None] isProcessing_def getBulkJob_def None
            processJob_enter_simps)
    next
      case (Some job)
      show ?thesis
      proof (cases "uploadFiles sys (upload_path jobId)")
        case None
        show ?thesis
          using notin by (simp add: processJob_no_file [OF notin Some None] getBulkJob_def Some None)
      next
        case upl: (Some f)
        show ?thesis
        proof (cases "parseCSVUrls f")
          case (Inl e)
          show ?thesis
            using notin
            by (simp add: processJob_parse_error [OF notin Some upl Inl] isProcessing_def getBulkJob_def
                storage_updateBulkJob_jobs claimed_simps(5) [OF Some] processJob_enter_simps upl)
        next
          case (Inr urls)
          show ?thesis
          proof (cases "writeError env")
            case None
            show ?thesis
              using notin
              by (simp add: processJob_success [OF notin Some upl Inr None] isProcessing_def
                  getBulkJob_def storage_updateBulkJob_jobs looped_job(1) [OF Some]
                  processJob_enter_simps upl)
          next
            case (Some e)
            show ?thesis
              using notin
              by (simp add: processJob_write_error [OF notin \<open>bulkJobs (storage sys) jobId = Some job\<close> upl Inr Some]
                  isProcessing_def getBulkJob_def storage_updateBulkJob_jobs
                  looped_job(1) [OF \<open>bulkJobs (storage sys) jobId = Some job\<close>]
                  processJob_enter_simps upl)
          qed
        qed
      qed
    qed
  qed
  note run1 = run [THEN conjunct1] and run2 = run [THEN conjunct2, THEN conjunct1]
    and run3 = run [THEN conjunct2, THEN conjunct2]
  show ?thesis
    using guard run1 run2 run3 inflight again fin phases by (intro conjI) assumption+
qed

text \<open>
  The example: with the run of job j1 in flight (the state \<open>claimed\<close>, and the state \<open>looped\<close>
  after its three URLs), j1 is in the processing set and a second call changes nothing; the run
  itself returns with j1 out of the set; before the upload is renamed the run cannot open it and
  never returns.
\<close>

theorem C7_processJob_witness:
  "''j1'' \<notin> processingJobs example_uploaded \<and>
   ''j1'' \<in> processingJobs (claimed ''j1'' example_uploaded) \<and>
   processJob example_env ''j1'' (claimed ''j1'' example_uploaded) =
     Some (claimed ''j1'' example_uploaded) \<and>
   ''j1'' \<in> processingJobs
      (looped example_env ''j1'' [''https://a.com'', ''http://b.com'', ''https://c.org''] example_uploaded) \<and>
   processJob example_env ''j1''
      (looped example_env ''j1'' [''https://a.com'', ''http://b.com'', ''https://c.org''] example_uploaded) =
     Some (looped example_env ''j1'' [''https://a.com'', ''http://b.com'', ''https://c.org''] example_uploaded) \<and>
   uploadFiles example_uploaded (upload_path ''j1'') \<noteq> None \<and>
   (\<exists>sys'. processJob example_env ''j1'' example_uploaded = Some sys' \<and>
           ''j1'' \<notin> processingJobs sys' \<and> processingJobs sys' = {}) \<and>
   processJob example_env ''j1''
     (snd (upload_create ''j1'' ''2025-01-01T00:00:00.000Z'' ''session'' (Some example_file) example_start)) =
     None"
proof -
  let ?urls = "[''https://a.com'', ''http://b.com'', ''https://c.org'']"
  let ?created = "snd (upload_create ''j1'' ''2025-01-01T00:00:00.000Z'' ''session'' (Some example_file) example_start)"
  note c7 = C7_processJob_guard_and_release [where jobId = "''j1''" and sys = example_uploaded
      and env = example_env and urls = ?urls and ?env2.0 = example_env]
  note c7' = C7_processJob_guard_and_release [where jobId = "''j1''" and sys = ?created
      and env = example_env]
  note c_run = c7 [THEN conjunct2, THEN conjunct1] and c_ret = c7 [THEN conjunct2, THEN conjunct2, THEN conjunct1] and c_claimed = c7 [THEN conjunct2, THEN conjunct2, THEN conjunct2, THEN conjunct2, THEN conjunct2, THEN conjunct2, THEN conjunct2, THEN conjunct2, THEN conjunct2, THEN conjunct1] and c_looped = c7 [THEN conjunct2, THEN conjunct2, THEN conjunct2, THEN conjunct2, THEN conjunct2, THEN conjunct2, THEN conjunct2, THEN conjunct2, THEN conjunct2, THEN conjunct2, THEN conjunct1]
    and c_again1 = c7 [THEN conjunct2, THEN conjunct2, THEN conjunct2, THEN conjunct2, THEN conjunct2, THEN conjunct2, THEN conjunct2, THEN conjunct2, THEN conjunct2, THEN conjunct2, THEN conjunct2, THEN conjunct2, THEN conjunct1] and c_again2 = c7 [THEN conjunct2, THEN conjunct2, THEN conjunct2, THEN conjunct2, THEN conjunct2, THEN conjunct2, THEN conjunct2, THEN conjunct2, THEN conjunct2, THEN conjunct2, THEN conjunct2, THEN conjunct2, THEN conjunct2, THEN conjunct1]
  note c_stuck = c7' [THEN conjunct2, THEN conjunct2, THEN conjunct2, THEN conjunct1]
  have n: "''j1'' \<notin> processingJobs example_uploaded"
    and e: "processingJobs example_uploaded = {}"
    and f: "uploadFiles example_uploaded (upload_path ''j1'') \<noteq> None"
    by (simp_all add: example_uploaded_simps)
  from c_claimed have 1: "''j1'' \<in> processingJobs (claimed ''j1'' example_uploaded)"
    by (simp only: isProcessing_def)
  note 2 = c_again1
  from c_looped have 3: "''j1'' \<in> processingJobs (looped example_env ''j1'' ?urls example_uploaded)"
    by (simp only: isProcessing_def)
  note 4 = c_again2
  from c_ret n f obtain sys' where r: "processJob example_env ''j1'' example_uploaded = Some sys'"
    by blast
  from c_run n r have "''j1'' \<notin> processingJobs sys' \<and> processingJobs sys' = processingJobs example_uploaded"
    by blast
  with r e have 5: "\<exists>sys'. processJob example_env ''j1'' example_uploaded = Some sys' \<and>
           ''j1'' \<notin> processingJobs sys' \<and> processingJobs sys' = {}"
    by simp
  have "''j1'' \<notin> processingJobs ?created"
    and "getBulkJob ''j1'' (storage ?created) \<noteq> None"
    and "uploadFiles ?created (upload_path ''j1'') = None"
    by (simp_all add: example_created_simps getBulkJob_def)
  with c_stuck have 6: "processJob example_env ''j1'' ?created = None"
    by blast
  from n 1 2 3 4 f 5 6 show ?thesis
    by (intro conjI) assumption+
qed

section \<open>The pipeline from upload to result file\<close>

lemma upload_create_job:
  assumes "upload_create uuid now sessionId (Some uploadedFile) sys0 = (Inr job, sys1)"
  shows "\<exists>f urls. uploadFiles sys0 (file_path uploadedFile) = Some f \<and> parseCSVUrls f = Inr urls \<and>
           job_id job = uuid \<and> totalUrls job = length urls \<and> processedUrls job = 0 \<and>
           job_status job = Pending \<and> userSession job = sessionId \<and>
           bulkJobs (storage sys1) = (bulkJobs (storage sys0))(uuid \<mapsto> job) \<and>
           bulkUrlResults (storage sys1) = bulkUrlResults (storage sys0) \<and>
           uploadFiles sys1 = uploadFiles sys0 \<and> resultFiles sys1 = resultFiles sys0 \<and>
           processingJobs sys1 = processingJobs sys0 \<and>
           jobWrites sys1 = jobWrites sys0 @ [(uuid, job)]"
proof (cases "uploadFiles sys0 (file_path uploadedFile)")
  case None
  with assms show ?thesis
    by (simp add: upload_create_def validateCSVFile_def Let_def)
next
  case (Some f)
  show ?thesis
  proof (cases "parseCSVUrls f")
    case (Inl e)
    with assms Some show ?thesis
      by (simp add: upload_create_def validateCSVFile_def Let_def split: if_splits)
  next
    case (Inr urls)
    with assms Some show ?thesis
      by (auto simp: upload_create_def validateCSVFile_def Let_def storage_createBulkJob_def
          createBulkJob_def split: if_splits)
  qed
qed

lemma analysis_url:
  "performSeoAnalysis env k u = Some (Fulfilled a) \<Longrightarrow> a_url a = u"
  by (auto simp: performSeoAnalysis_def Let_def split: option.splits settled.splits sum.splits)

lemma final_row_url: "url (final_row env jobId urls k) = urls ! k"
  by (auto simp: final_row_def outcome_def processUrl_def errorResult_def analysis_race_def Let_def
      createBulkUrlResult_def dest: analysis_url split: settled.splits option.splits)

lemma all_rows_urls: "map url (all_rows env jobId urls) = urls"
  by (simp add: all_rows_def final_row_url comp_def map_nth)

lemma hd_csv_row: "hd (csv_row r) = Str (url r)"
  by (simp add: csv_row_def)

text \<open>
  C3: when a job created by the upload handler is run and ends Completed, the job's result file
  holds the header row followed by one row for each URL extracted from the uploaded CSV, that is
  totalUrls + 1 rows, and the URL column of the data rows lists the extracted URLs in their order.
  The order in which the analyses of a batch settle (\<open>settleTime\<close>) is arbitrary.
\<close>

theorem C3_completed_csv_rows_in_url_order:
  assumes up: "upload_create uuid now sessionId (Some uploadedFile) sys0 = (Inr job, sys1)"
    and run: "processJob env (job_id job) (upload_rename job uploadedFile sys1) = Some sys3"
    and got: "getBulkJob (job_id job) (storage sys3) = Some job3"
    and compl: "job_status job3 = Completed"
  shows "\<exists>f urls p table.
           uploadFiles sys0 (file_path uploadedFile) = Some f \<and> parseCSVUrls f = Inr urls \<and>
           totalUrls job3 = length urls \<and>
           resultFilePath job3 = Some p \<and> resultFiles sys3 p = Some table \<and>
           length table = totalUrls job3 + 1 \<and>
           hd table = columns \<and> map hd (tl table) = map Str urls"
proof -
  from upload_create_job [OF up] obtain f urls where
    f: "uploadFiles sys0 (file_path uploadedFile) = Some f" and urls: "parseCSVUrls f = Inr urls"
    and id: "job_id job = uuid" and tot: "totalUrls job = length urls"
    and pend: "job_status job = Pending"
    and jobs1: "bulkJobs (storage sys1) = (bulkJobs (storage sys0))(uuid \<mapsto> job)"
    and up1: "uploadFiles sys1 = uploadFiles sys0" and pj1: "processingJobs sys1 = processingJobs sys0"
    by blast
  let ?sys2 = "upload_rename job uploadedFile sys1"
  have file2: "uploadFiles ?sys2 (upload_path uuid) = Some f"
    by (simp add: upload_rename_def up1 f id)
  have job2: "bulkJobs (storage ?sys2) uuid = Some job"
    by (simp add: upload_rename_def up1 f jobs1)
  have pj2: "processingJobs ?sys2 = processingJobs sys0"
    by (simp add: upload_rename_def up1 f pj1)
  have notin: "uuid \<notin> processingJobs ?sys2"
  proof
    assume "uuid \<in> processingJobs ?sys2"
    then have "processJob env uuid ?sys2 = Some ?sys2" by (simp add: processJob_def)
    with run id have "sys3 = ?sys2" by simp
    with got job2 id have "job3 = job" by (simp add: getBulkJob_def)
    with compl pend show False by simp
  qed
  have noerr: "writeError env = None"
  proof (cases "writeError env")
    case None
    then show ?thesis .
  next
    case (Some e)
    have "sys3 = (emit (JobFailed uuid (ErrorObj e))
             (snd (storage_updateBulkJob uuid
                (no_updates\<lparr>set_status := Some Failed, set_completedAt := Some (Some (finishDate env))\<rparr>)
                (looped env uuid urls ?sys2))))\<lparr>processingJobs := processingJobs ?sys2\<rparr>"
      using run unfolding id processJob_write_error [OF notin job2 file2 urls Some] by simp
    then have "bulkJobs (storage sys3) uuid =
        Some (job\<lparr>job_status := Failed, processedUrls := length urls, completedAt := Some (finishDate env)\<rparr>)"
      by (simp add: storage_updateBulkJob_jobs looped_job(1) [OF job2])
    with got id have "Some job3 =
        Some (job\<lparr>job_status := Failed, processedUrls := length urls, completedAt := Some (finishDate env)\<rparr>)"
      by (simp add: getBulkJob_def)
    then have "job3 = job\<lparr>job_status := Failed, processedUrls := length urls, completedAt := Some (finishDate env)\<rparr>"
      by (rule option.inject [THEN iffD1])
    then have "job_status job3 = Failed"
      by simp
    with compl show ?thesis by simp
  qed
  let ?table = "columns # map csv_row (all_rows env uuid urls)"
  have "sys3 = (emit (JobCompleted uuid)
             (snd (storage_updateBulkJob uuid
                (no_updates\<lparr>set_status := Some Completed, set_completedAt := Some (Some (finishDate env)),
                   set_resultFilePath := Some (Some (result_path uuid))\<rparr>)
                ((looped env uuid urls ?sys2)\<lparr>resultFiles := (resultFiles ?sys2)
                    (result_path uuid \<mapsto> ?table)\<rparr>))))
           \<lparr>processingJobs := processingJobs ?sys2\<rparr>"
    using run unfolding id processJob_success [OF notin job2 file2 urls noerr] by simp
  then have b3: "bulkJobs (storage sys3) uuid =
        Some (job\<lparr>job_status := Completed, processedUrls := length urls,
          completedAt := Some (finishDate env), resultFilePath := Some (result_path uuid)\<rparr>)"
    and t3: "resultFiles sys3 (result_path uuid) = Some ?table"
    by (simp_all add: storage_updateBulkJob_jobs looped_job(1) [OF job2])
  from b3 got id have "Some job3 = Some (job\<lparr>job_status := Completed, processedUrls := length urls,
      completedAt := Some (finishDate env), resultFilePath := Some (result_path uuid)\<rparr>)"
    by (simp add: getBulkJob_def)
  then have j3: "job3 = job\<lparr>job_status := Completed, processedUrls := length urls,
      completedAt := Some (finishDate env), resultFilePath := Some (result_path uuid)\<rparr>"
    by (rule option.inject [THEN iffD1])
  have "map hd (map csv_row (all_rows env uuid urls)) = map (\<lambda>r. Str (url r)) (all_rows env uuid urls)"
    by (simp add: hd_csv_row)
  also have "\<dots> = map Str (map url (all_rows env uuid urls))"
    by simp
  also have "\<dots> = map Str urls"
    by (simp only: all_rows_urls)
  finally have hds: "map hd (tl ?table) = map Str urls"
    by simp
  have len: "length ?table = length urls + 1"
    by (simp add: all_rows_def)
  show ?thesis
    apply (rule exI [of _ f], rule exI [of _ urls], rule exI [of _ "result_path uuid"],
        rule exI [of _ ?table])
    using f urls t3 hds len by (simp add: j3 tot)
qed

theorem C3_completed_csv_witness:
  "\<exists>sys1 sys3 job3 table.
     upload_create ''j1'' ''2025-01-01T00:00:00.000Z'' ''session'' (Some example_file) example_start =
       (Inr example_job, sys1) \<and>
     processJob example_env (job_id example_job) (upload_rename example_job example_file sys1) = Some sys3 \<and>
     getBulkJob (job_id example_job) (storage sys3) = Some job3 \<and>
     job_status job3 = Completed \<and> totalUrls job3 = 3 \<and>
     resultFiles sys3 ''results/j1_results.csv'' = Some table \<and>
     length table = 4 \<and>
     map hd (tl table) = [Str ''https://a.com'', Str ''http://b.com'', Str ''https://c.org'']"
proof -
  let ?sys1 = "snd (upload_create ''j1'' ''2025-01-01T00:00:00.000Z'' ''session'' (Some example_file) example_start)"
  note up = example_created
  have id: "job_id example_job = ''j1''"
    by (simp add: example_job_def)
  have ren: "upload_rename example_job example_file ?sys1 = example_uploaded"
    by (simp add: example_uploaded_def)
  note run = processJob_success [OF example_uploaded_simps(1,3,4) example_parse example_uploaded_simps(6)]
  define sys3 where "sys3 = the (processJob example_env ''j1'' example_uploaded)"
  have run3: "processJob example_env (job_id example_job) (upload_rename example_job example_file ?sys1) = Some sys3"
    unfolding id ren sys3_def run by simp
  define job3 where "job3 = example_job\<lparr>job_status := Completed, processedUrls := 3,
      completedAt := Some (finishDate example_env), resultFilePath := Some (result_path ''j1'')\<rparr>"
  have got: "getBulkJob (job_id example_job) (storage sys3) = Some job3"
    unfolding id sys3_def run job3_def
    by (simp add: getBulkJob_def storage_updateBulkJob_jobs looped_job(1) [OF example_uploaded_simps(3)])
  have compl: "job_status job3 = Completed"
    by (simp add: job3_def)
  from C3_completed_csv_rows_in_url_order [OF up run3 got compl]
  obtain f urls p table where
    f: "uploadFiles example_start (file_path example_file) = Some f" and u: "parseCSVUrls f = Inr urls"
    and t: "totalUrls job3 = length urls" and p: "resultFilePath job3 = Some p"
    and r: "resultFiles sys3 p = Some table" and l: "length table = totalUrls job3 + 1"
    and h: "map hd (tl table) = map Str urls"
    by blast
  from f have "f = example_upload"
    by (simp add: example_start_def example_file_def)
  with u example_parse have urls: "urls = [''https://a.com'', ''http://b.com'', ''https://c.org'']"
    by simp
  from p have "p = ''results/j1_results.csv''"
    by (simp add: job3_def result_path_def)
  with up run3 got compl t r l h urls show ?thesis
    by (intro exI [of _ ?sys1] exI [of _ sys3] exI [of _ job3] exI [of _ table]) simp
qed

section \<open>Failed analyses\<close>

lemma foldl_upd_other:
  "x \<notin> key ` set js \<Longrightarrow> foldl (\<lambda>m j. m(key j \<mapsto> val j)) m js x = m x"
  by (induction js arbitrary: m) auto

lemma foldl_upd_hit:
  "distinct (map key js) \<Longrightarrow> j \<in> set js \<Longrightarrow>
   foldl (\<lambda>m j. m(key j \<mapsto> val j)) m js (key j) = Some (val j)"
proof (induction js arbitrary: m)
  case Nil
  then show ?case by simp
next
  case (Cons a js)
  show ?case
  proof (cases "j = a")
    case True
    with Cons.prems have "key a \<notin> key ` set js" by auto
    then have "foldl (\<lambda>m j. m(key j \<mapsto> val j)) (m(key a \<mapsto> val a)) js (key a) =
        (m(key a \<mapsto> val a)) (key a)"
      by (rule foldl_upd_other)
    then show ?thesis unfolding True foldl_Cons by simp
  next
    case False
    with Cons show ?thesis by auto
  qed
qed

lemma foldl_processUrl_results:
  "bulkUrlResults (foldl (\<lambda>st j. snd (processUrl env (i + j) (batch ! j) jobId st)) st js) =
     foldl (\<lambda>m j. m(resultId env (i + j) \<mapsto> stored_result env jobId (i + j) (batch ! j)))
       (bulkUrlResults st) js"
  by (induction js arbitrary: st) (simp_all add: processUrl_snd)

lemma settle_order_set [simp]: "set (settle_order env i n) = {0..<n}"
  by (simp add: settle_order_def)

lemma settle_order_distinct [simp]: "distinct (settle_order env i n)"
  by (simp add: settle_order_def)

lemma run_batch_results:
  "bulkUrlResults (storage (snd (run_batch env jobId i batch sys))) =
     foldl (\<lambda>m j. m(resultId env (i + j) \<mapsto> stored_result env jobId (i + j) (batch ! j)))
       (bulkUrlResults (storage sys)) (settle_order env i (length batch))"
  by (simp add: run_batch_def Let_def foldl_processUrl_results)

lemma batch_step_results:
  assumes inj: "inj_on (resultId env) {..<length urls}"
    and lt: "i < length urls"
    and before: "stored_upto env jobId urls i sys"
  shows "stored_upto env jobId urls (i + min batchSize (length urls - i))
           (fst (batch_step env jobId urls i (sys, results)))"
proof -
  let ?batch = "take batchSize (drop i urls)"
  let ?n = "min batchSize (length urls - i)"
  let ?key = "\<lambda>j. resultId env (i + j)"
  let ?val = "\<lambda>j. stored_result env jobId (i + j) (?batch ! j)"
  let ?m = "foldl (\<lambda>m j. m(?key j \<mapsto> ?val j)) (bulkUrlResults (storage sys)) (settle_order env i (length ?batch))"
  have len: "length ?batch = ?n"
    by (simp add: min.commute)
  have res: "bulkUrlResults (storage (fst (batch_step env jobId urls i (sys, results)))) = ?m"
    by (simp add: batch_step_def settle_loop_frame run_batch_results)
  have inj_keys: "inj_on ?key {0..<?n}"
  proof (rule inj_onI)
    fix x y
    assume x: "x \<in> {0..<?n}" and y: "y \<in> {0..<?n}" and e: "resultId env (i + x) = resultId env (i + y)"
    from x y lt have "i + x \<in> {..<length urls}" "i + y \<in> {..<length urls}"
      by auto
    with inj e have "i + x = i + y"
      by (rule inj_onD)
    then show "x = y" by simp
  qed
  have dist: "distinct (map ?key (settle_order env i (length ?batch)))"
    unfolding len by (simp add: distinct_map inj_keys)
  show ?thesis
    unfolding stored_upto_def res
  proof (intro allI impI)
    fix k
    assume k: "k < i + ?n"
    show "?m (resultId env k) = Some (stored_result env jobId k (urls ! k))"
    proof (cases "k < i")
      case True
      have "resultId env k \<notin> ?key ` set (settle_order env i (length ?batch))"
      proof
        assume "resultId env k \<in> ?key ` set (settle_order env i (length ?batch))"
        then obtain j where j: "j < ?n" and e: "resultId env k = resultId env (i + j)"
          unfolding len by auto
        from j lt have "i + j \<in> {..<length urls}" by auto
        moreover from True lt have "k \<in> {..<length urls}" by simp
        ultimately have "k = i + j"
          using inj e by (simp add: inj_on_def)
        with True show False by simp
      qed
      then have "?m (resultId env k) = bulkUrlResults (storage sys) (resultId env k)"
        by (rule foldl_upd_other)
      with before True show ?thesis
        by (simp add: stored_upto_def)
    next
      case False
      define j where "j = k - i"
      from False k have j: "j < ?n" and kj: "k = i + j"
        by (auto simp: j_def)
      have "j \<in> set (settle_order env i (length ?batch))"
        unfolding len using j by simp
      from foldl_upd_hit [OF dist this, of ?val "bulkUrlResults (storage sys)"]
      have "?m (resultId env k) = Some (stored_result env jobId k (?batch ! j))"
        by (simp add: kj)
      moreover have "?batch ! j = urls ! k"
        using j lt by (simp add: kj nth_drop)
      ultimately show ?thesis by simp
    qed
  qed
qed

lemma batch_loop_results:
  "inj_on (resultId env) {..<length urls} \<Longrightarrow>
   stored_upto env jobId urls (min i (length urls)) sys \<Longrightarrow>
   stored_upto env jobId urls (length urls) (fst (batch_loop env jobId urls i (sys, results)))"
proof (induction "length urls - i" arbitrary: i sys results rule: less_induct)
  case less
  show ?case
  proof (cases "i < length urls")
    case False
    then have "min i (length urls) = length urls" by simp
    with less.prems(2) False show ?thesis
      by (simp add: batch_loop_done)
  next
    case True
    obtain sys' results' where st: "batch_step env jobId urls i (sys, results) = (sys', results')"
      by (cases "batch_step env jobId urls i (sys, results)")
    from less.prems(2) True have before: "stored_upto env jobId urls i sys"
      by (simp add: min_def)
    from batch_step_results [OF less.prems(1) True before, of results]
    have "stored_upto env jobId urls (i + min batchSize (length urls - i)) sys'"
      by (simp add: st)
    moreover have "i + min batchSize (length urls - i) = min (i + batchSize) (length urls)"
      using True by simp
    ultimately have after: "stored_upto env jobId urls (min (i + batchSize) (length urls)) sys'"
      by simp
    have dec: "length urls - (i + batchSize) < length urls - i"
      using True by (simp add: batchSize_def)
    show ?thesis
      unfolding batch_loop_step [OF True] st
      by (rule less.hyps [OF dec less.prems(1) after])
  qed
qed

lemma looped_results:
  "inj_on (resultId env) {..<length urls} \<Longrightarrow> stored_upto env jobId urls (length urls) (looped env jobId urls sys)"
  unfolding looped_def by (rule batch_loop_results) (simp_all add: stored_upto_def)

lemma outcome_rejected:
  "analysis_race env k u = Rejected err \<Longrightarrow>
   outcome env jobId k u =
     Rejected (ErrorObj (''Failed to analyze '' @ u @ '': '' @
       (case err of ErrorObj m \<Rightarrow> m | NonError \<Rightarrow> ''Unknown error'')))"
  by (simp add: outcome_def processUrl_def Let_def)

lemma stored_rejected:
  "analysis_race env k u = Rejected err \<Longrightarrow>
   stored_result env jobId k u =
     \<lparr>r_id = resultId env k, r_jobId = jobId, r_url = u, r_analysisResult = None,
      r_errorMessage = Some (case err of ErrorObj m \<Rightarrow> m | NonError \<Rightarrow> ''Unknown error''),
      r_processedAt = resultDate env k\<rparr>"
  by (simp add: stored_result_def)

lemma final_row_rejected:
  assumes "analysis_race env k (urls ! k) = Rejected err"
  shows "csv_row (final_row env jobId urls k) =
     [Str (urls ! k), Num 0, Str [], Num 0, Str [], Num 0, Str [], Str [], Str [], Str [], Str [],
      Str [], Str [], Str [], Str [], Str (rowDate env k), Undefined, Str [],
      Str (''Failed to analyze '' @ urls ! k @ '': '' @
           (case err of ErrorObj m \<Rightarrow> m | NonError \<Rightarrow> ''Unknown error''))]"
  by (simp add: final_row_def outcome_rejected [OF assms] csv_row_def errorResult_def
      reason_message_def)

text \<open>
  C4: take a stored job whose upload can be opened and parsed, a run in which the result file can
  be written, and result identifiers that are distinct. Then processJob returns with the job
  Completed and all URLs counted, the result file has one row per URL after the header, and for
  every URL whose analysis is rejected (by the fetch, by the analysis or by the timer) the row is
  the placeholder row (score 0, empty analysis fields, a non-empty error message) and a
  BulkUrlResult with the error message and no analysis is stored under the job id.
\<close>

theorem C4_failed_url_yields_placeholder_row:
  assumes notin: "jobId \<notin> processingJobs sys"
    and job: "getBulkJob jobId (storage sys) = Some job"
    and upl: "uploadFiles sys (upload_path jobId) = Some f"
    and urls: "parseCSVUrls f = Inr urls"
    and wr: "writeError env = None"
    and ids: "inj_on (resultId env) {..<length urls}"
  shows "\<exists>sys' job' table.
     processJob env jobId sys = Some sys' \<and>
     getBulkJob jobId (storage sys') = Some job' \<and>
     job_status job' = Completed \<and> processedUrls job' = length urls \<and>
     resultFiles sys' (result_path jobId) = Some table \<and>
     length table = length urls + 1 \<and>
     (\<forall>k < length urls. \<forall>err. analysis_race env k (urls ! k) = Rejected err \<longrightarrow>
        table ! (k + 1) =
          [Str (urls ! k), Num 0, Str [], Num 0, Str [], Num 0, Str [], Str [], Str [], Str [],
           Str [], Str [], Str [], Str [], Str [], Str (rowDate env k), Undefined, Str [],
           Str (''Failed to analyze '' @ urls ! k @ '': '' @
                (case err of ErrorObj m \<Rightarrow> m | NonError \<Rightarrow> ''Unknown error''))] \<and>
        ''Failed to analyze '' @ urls ! k @ '': '' @
          (case err of ErrorObj m \<Rightarrow> m | NonError \<Rightarrow> ''Unknown error'') \<noteq> [] \<and>
        bulkUrlResults (storage sys') (resultId env k) =
          Some \<lparr>r_id = resultId env k, r_jobId = jobId, r_url = urls ! k, r_analysisResult = None,
                r_errorMessage = Some (case err of ErrorObj m \<Rightarrow> m | NonError \<Rightarrow> ''Unknown error''),
                r_processedAt = resultDate env k\<rparr>)"
proof -
  from job have job': "bulkJobs (storage sys) jobId = Some job"
    by (simp add: getBulkJob_def)
  let ?table = "columns # map csv_row (all_rows env jobId urls)"
  define sys' where "sys' = (emit (JobCompleted jobId)
             (snd (storage_updateBulkJob jobId
                (no_updates\<lparr>set_status := Some Completed, set_completedAt := Some (Some (finishDate env)),
                   set_resultFilePath := Some (Some (result_path jobId))\<rparr>)
                ((looped env jobId urls sys)\<lparr>resultFiles := (resultFiles sys)
                    (result_path jobId \<mapsto> ?table)\<rparr>))))
           \<lparr>processingJobs := processingJobs sys\<rparr>"
  define job3 where "job3 = job\<lparr>job_status := Completed, processedUrls := length urls,
      completedAt := Some (finishDate env), resultFilePath := Some (result_path jobId)\<rparr>"
  have run: "processJob env jobId sys = Some sys'"
    unfolding sys'_def by (rule processJob_success [OF notin job' upl urls wr])
  have got: "getBulkJob jobId (storage sys') = Some job3"
    by (simp add: sys'_def job3_def getBulkJob_def storage_updateBulkJob_jobs looped_job(1) [OF job'])
  have st: "job_status job3 = Completed" and pr: "processedUrls job3 = length urls"
    by (simp_all add: job3_def)
  have tab: "resultFiles sys' (result_path jobId) = Some ?table"
    by (simp add: sys'_def)
  have len: "length ?table = length urls + 1"
    by (simp add: all_rows_def)
  have res: "bulkUrlResults (storage sys') = bulkUrlResults (storage (looped env jobId urls sys))"
    by (simp add: sys'_def)
  have rows: "\<forall>k < length urls. \<forall>err. analysis_race env k (urls ! k) = Rejected err \<longrightarrow>
        ?table ! (k + 1) =
          [Str (urls ! k), Num 0, Str [], Num 0, Str [], Num 0, Str [], Str [], Str [], Str [],
           Str [], Str [], Str [], Str [], Str [], Str (rowDate env k), Undefined, Str [],
           Str (''Failed to analyze '' @ urls ! k @ '': '' @
                (case err of ErrorObj m \<Rightarrow> m | NonError \<Rightarrow> ''Unknown error''))] \<and>
        ''Failed to analyze '' @ urls ! k @ '': '' @
          (case err of ErrorObj m \<Rightarrow> m | NonError \<Rightarrow> ''Unknown error'') \<noteq> [] \<and>
        bulkUrlResults (storage sys') (resultId env k) =
          Some \<lparr>r_id = resultId env k, r_jobId = jobId, r_url = urls ! k, r_analysisResult = None,
                r_errorMessage = Some (case err of ErrorObj m \<Rightarrow> m | NonError \<Rightarrow> ''Unknown error''),
                r_processedAt = resultDate env k\<rparr>"
  proof (intro allI impI)
    fix k err
    assume k: "k < length urls" and rej: "analysis_race env k (urls ! k) = Rejected err"
    have "?table ! (k + 1) = csv_row (final_row env jobId urls k)"
      using k by (simp add: all_rows_def)
    then have a: "?table ! (k + 1) =
          [Str (urls ! k), Num 0, Str [], Num 0, Str [], Num 0, Str [], Str [], Str [], Str [],
           Str [], Str [], Str [], Str [], Str [], Str (rowDate env k), Undefined, Str [],
           Str (''Failed to analyze '' @ urls ! k @ '': '' @
                (case err of ErrorObj m \<Rightarrow> m | NonError \<Rightarrow> ''Unknown error''))]"
      by (simp only: final_row_rejected [OF rej])
    have b: "''Failed to analyze '' @ urls ! k @ '': '' @
          (case err of ErrorObj m \<Rightarrow> m | NonError \<Rightarrow> ''Unknown error'') \<noteq> []"
      by simp
    from looped_results [OF ids, of jobId sys] k
    have "bulkUrlResults (storage (looped env jobId urls sys)) (resultId env k) =
        Some (stored_result env jobId k (urls ! k))"
      by (simp add: stored_upto_def)
    then have c: "bulkUrlResults (storage sys') (resultId env k) =
          Some \<lparr>r_id = resultId env k, r_jobId = jobId, r_url = urls ! k, r_analysisResult = None,
                r_errorMessage = Some (case err of ErrorObj m \<Rightarrow> m | NonError \<Rightarrow> ''Unknown error''),
                r_processedAt = resultDate env k\<rparr>"
      by (simp only: res stored_rejected [OF rej])
    from a b c show "?table ! (k + 1) =
          [Str (urls ! k), Num 0, Str [], Num 0, Str [], Num 0, Str [], Str [], Str [], Str [],
           Str [], Str [], Str [], Str [], Str [], Str (rowDate env k), Undefined, Str [],
           Str (''Failed to analyze '' @ urls ! k @ '': '' @
                (case err of ErrorObj m \<Rightarrow> m | NonError \<Rightarrow> ''Unknown error''))] \<and>
        ''Failed to analyze '' @ urls ! k @ '': '' @
          (case err of ErrorObj m \<Rightarrow> m | NonError \<Rightarrow> ''Unknown error'') \<noteq> [] \<and>
        bulkUrlResults (storage sys') (resultId env k) =
          Some \<lparr>r_id = resultId env k, r_jobId = jobId, r_url = urls ! k, r_analysisResult = None,
                r_errorMessage = Some (case err of ErrorObj m \<Rightarrow> m | NonError \<Rightarrow> ''Unknown error''),
                r_processedAt = resultDate env k\<rparr>"
      by (intro conjI)
  qed
  from run got st pr tab len rows show ?thesis
    by (intro exI [of _ sys'] exI [of _ job3] exI [of _ ?table] conjI)
qed

lemma example_ids: "inj_on (resultId example_env) {..<length [''https://a.com'', ''http://b.com'', ''https://c.org'']}"
proof -
  have "{..<length [''https://a.com'', ''http://b.com'', ''https://c.org'']} = {0, 1, 2 :: nat}"
    by auto
  then show ?thesis
    by (simp add: example_env_def show_nat.simps digit_char_def)
qed

lemma example_timeout:
  "analysis_race example_env 1 ''http://b.com'' = Rejected (ErrorObj ''URL analysis timeout'')"
  by (simp add: analysis_race_def performSeoAnalysis_def example_env_def)

theorem C4_failed_url_witness:
  "''j1'' \<notin> processingJobs example_uploaded \<and>
   getBulkJob ''j1'' (storage example_uploaded) = Some example_job \<and>
   uploadFiles example_uploaded (upload_path ''j1'') = Some example_upload \<and>
   parseCSVUrls example_upload = Inr [''https://a.com'', ''http://b.com'', ''https://c.org''] \<and>
   writeError example_env = None \<and>
   inj_on (resultId example_env) {..<length [''https://a.com'', ''http://b.com'', ''https://c.org'']} \<and>
   analysis_race example_env 1 ''http://b.com'' = Rejected (ErrorObj ''URL analysis timeout'') \<and>
   (\<exists>sys' job' table.
      processJob example_env ''j1'' example_uploaded = Some sys' \<and>
      getBulkJob ''j1'' (storage sys') = Some job' \<and> job_status job' = Completed \<and>
      resultFiles sys' (result_path ''j1'') = Some table \<and> length table = 4 \<and>
      table ! 2 =
        [Str ''http://b.com'', Num 0, Str [], Num 0, Str [], Num 0, Str [], Str [], Str [], Str [],
         Str [], Str [], Str [], Str [], Str [], Str ''2025-01-01T00:00:01.000Z'', Undefined, Str [],
         Str ''Failed to analyze http://b.com: URL analysis timeout''] \<and>
      bulkUrlResults (storage sys') ''result-1'' =
        Some \<lparr>r_id = ''result-1'', r_jobId = ''j1'', r_url = ''http://b.com'', r_analysisResult = None,
              r_errorMessage = Some ''URL analysis timeout'',
              r_processedAt = ''2025-01-01T00:00:01.500Z''\<rparr>)"
proof -
  let ?urls = "[''https://a.com'', ''http://b.com'', ''https://c.org'']"
  have job: "getBulkJob ''j1'' (storage example_uploaded) = Some example_job"
    by (simp add: getBulkJob_def example_uploaded_simps)
  from C4_failed_url_yields_placeholder_row [OF example_uploaded_simps(1) job
      example_uploaded_simps(4) example_parse example_uploaded_simps(6) example_ids]
  obtain sys' job' table where
    run: "processJob example_env ''j1'' example_uploaded = Some sys'"
    and got: "getBulkJob ''j1'' (storage sys') = Some job'" and st: "job_status job' = Completed"
    and tab: "resultFiles sys' (result_path ''j1'') = Some table"
    and len: "length table = length ?urls + 1"
    and rows: "\<forall>k < length ?urls. \<forall>err. analysis_race example_env k (?urls ! k) = Rejected err \<longrightarrow>
        table ! (k + 1) =
          [Str (?urls ! k), Num 0, Str [], Num 0, Str [], Num 0, Str [], Str [], Str [], Str [],
           Str [], Str [], Str [], Str [], Str [], Str (rowDate example_env k), Undefined, Str [],
           Str (''Failed to analyze '' @ ?urls ! k @ '': '' @
                (case err of ErrorObj m \<Rightarrow> m | NonError \<Rightarrow> ''Unknown error''))] \<and>
        ''Failed to analyze '' @ ?urls ! k @ '': '' @
          (case err of ErrorObj m \<Rightarrow> m | NonError \<Rightarrow> ''Unknown error'') \<noteq> [] \<and>
        bulkUrlResults (storage sys') (resultId example_env k) =
          Some \<lparr>r_id = resultId example_env k, r_jobId = ''j1'', r_url = ?urls ! k, r_analysisResult = None,
                r_errorMessage = Some (case err of ErrorObj m \<Rightarrow> m | NonError \<Rightarrow> ''Unknown error''),
                r_processedAt = resultDate example_env k\<rparr>"
    by blast
  have rd: "rowDate example_env 1 = ''2025-01-01T00:00:01.000Z''"
    and ri: "resultId example_env 1 = ''result-1''"
    and rp: "resultDate example_env 1 = ''2025-01-01T00:00:01.500Z''"
    by (simp_all add: example_env_def show_nat.simps digit_char_def)
  have lt: "1 < length ?urls"
    by simp
  have tm: "analysis_race example_env 1 (?urls ! 1) = Rejected (ErrorObj ''URL analysis timeout'')"
    using example_timeout by simp
  have two: "(1::nat) + 1 = 2"
    by simp
  note inst = rows [rule_format, OF lt tm, unfolded rd ri rp two]
  from inst have row: "table ! 2 =
        [Str ''http://b.com'', Num 0, Str [], Num 0, Str [], Num 0, Str [], Str [], Str [], Str [],
         Str [], Str [], Str [], Str [], Str [], Str ''2025-01-01T00:00:01.000Z'', Undefined, Str [],
         Str ''Failed to analyze http://b.com: URL analysis timeout'']"
    by simp
  from inst have res: "bulkUrlResults (storage sys') ''result-1'' =
        Some \<lparr>r_id = ''result-1'', r_jobId = ''j1'', r_url = ''http://b.com'', r_analysisResult = None,
              r_errorMessage = Some ''URL analysis timeout'',
              r_processedAt = ''2025-01-01T00:00:01.500Z''\<rparr>"
    by simp
  from len have len4: "length table = 4"
    by simp
  from run got st tab len4 row res
  have "\<exists>sys' job' table.
      processJob example_env ''j1'' example_uploaded = Some sys' \<and>
      getBulkJob ''j1'' (storage sys') = Some job' \<and> job_status job' = Completed \<and>
      resultFiles sys' (result_path ''j1'') = Some table \<and> length table = 4 \<and>
      table ! 2 =
        [Str ''http://b.com'', Num 0, Str [], Num 0, Str [], Num 0, Str [], Str [], Str [], Str [],
         Str [], Str [], Str [], Str [], Str [], Str ''2025-01-01T00:00:01.000Z'', Undefined, Str [],
         Str ''Failed to analyze http://b.com: URL analysis timeout''] \<and>
      bulkUrlResults (storage sys') ''result-1'' =
        Some \<lparr>r_id = ''result-1'', r_jobId = ''j1'', r_url = ''http://b.com'', r_analysisResult = None,
              r_errorMessage = Some ''URL analysis timeout'',
              r_processedAt = ''2025-01-01T00:00:01.500Z''\<rparr>"
    by blast
  with example_uploaded_simps(1) job example_uploaded_simps(4) example_parse
    example_uploaded_simps(6) example_ids example_timeout
  show ?thesis
    by (intro conjI)
qed

section \<open>The breakdown columns of the result file\<close>

lemma final_row_no_breakdown:
  "breakdownSummary (final_row env jobId urls k) = None \<and> scoreBreakdown (final_row env jobId urls k) = None"
  by (simp add: final_row_def outcome_def processUrl_def errorResult_def Let_def
      split: settled.splits)

lemma csv_row_breakdown_cells:
  "breakdownSummary r = None \<Longrightarrow> scoreBreakdown r = None \<Longrightarrow>
   csv_row r ! 16 = Undefined \<and> csv_row r ! 17 = Str []"
  by (simp add: csv_row_def)

lemma pipeline_rows_blank_breakdown:
  "k < length urls \<Longrightarrow>
   (columns # map csv_row (all_rows env jobId urls)) ! (k + 1) ! 16 = Undefined \<and>
   (columns # map csv_row (all_rows env jobId urls)) ! (k + 1) ! 17 = Str []"
  using csv_row_breakdown_cells [of "final_row env jobId urls k"] final_row_no_breakdown [of env jobId urls k]
  by (simp add: all_rows_def)

lemma perfect_page_analysis:
  "score (analyzeSeoTags perfect_page u) = 100 \<and> breakdown (analyzeSeoTags perfect_page u) = []"
  by (simp add: analyzeSeoTags_def run_checks_def Let_def perfect_page_def check_defs is_space_def)

lemma json_breakdown_empty: "json_breakdown [] = ''[]''"
  by (simp add: json_breakdown_def)

text \<open>
  C5 fails on the code: processUrl builds its rows without a breakdown summary and without a
  breakdown list, so generateResultsCSV writes both columns blank. Here the example job is run
  with every fetch returning the page on which all checks are good: the analysis has an empty
  breakdown, and in the first data row of the result file the Score_Breakdown_Summary field is
  \<open>undefined\<close> (written as an empty field) and the Breakdown_Details field is the empty string,
  where the writer would have produced \<open>[]\<close> for an empty list.
\<close>

theorem C5_breakdown_columns_blank_in_pipeline:
  "\<exists>sys' table.
     processJob perfect_env ''j1'' example_uploaded = Some sys' \<and>
     resultFiles sys' (result_path ''j1'') = Some table \<and>
     analysis_race perfect_env 0 ''https://a.com'' \<noteq> Rejected (ErrorObj ''URL analysis timeout'') \<and>
     breakdown (analyzeSeoTags perfect_page ''https://a.com'') = [] \<and>
     json_breakdown (breakdown (analyzeSeoTags perfect_page ''https://a.com'')) = ''[]'' \<and>
     columns ! 16 = Str ''Score_Breakdown_Summary'' \<and>
     columns ! 17 = Str ''Breakdown_Details'' \<and>
     hd (table ! 1) = Str ''https://a.com'' \<and>
     table ! 1 ! 1 = Num 100 \<and>
     table ! 1 ! 16 = Undefined \<and>
     table ! 1 ! 17 = Str []"
proof -
  let ?urls = "[''https://a.com'', ''http://b.com'', ''https://c.org'']"
  let ?table = "columns # map csv_row (all_rows perfect_env ''j1'' ?urls)"
  have wr: "writeError perfect_env = None"
    by (simp add: perfect_env_def example_env_def)
  note run = processJob_success [OF example_uploaded_simps(1,3,4) example_parse wr]
  define sys' where "sys' = the (processJob perfect_env ''j1'' example_uploaded)"
  have r: "processJob perfect_env ''j1'' example_uploaded = Some sys'"
    unfolding sys'_def run by simp
  have t: "resultFiles sys' (result_path ''j1'') = Some ?table"
    unfolding sys'_def run by simp
  have "\<exists>a. analysis_race perfect_env 0 ''https://a.com'' = Fulfilled a \<and>
      a_score a = score (analyzeSeoTags perfect_page ''https://a.com'')"
    by (simp add: analysis_race_def performSeoAnalysis_def perfect_env_def example_env_def Let_def)
  then obtain a where race: "analysis_race perfect_env 0 ''https://a.com'' = Fulfilled a"
    and asc: "a_score a = score (analyzeSeoTags perfect_page ''https://a.com'')"
    by blast
  from race have nr: "analysis_race perfect_env 0 ''https://a.com'' \<noteq> Rejected (ErrorObj ''URL analysis timeout'')"
    by simp
  have row0: "?table ! 1 = csv_row (final_row perfect_env ''j1'' ?urls 0)"
    by (simp add: all_rows_def upt_rec)
  have u0: "hd (?table ! 1) = Str ''https://a.com''"
    unfolding row0 using final_row_url [of perfect_env "''j1''" ?urls 0] by (simp add: hd_csv_row)
  have sc: "seoScore (final_row perfect_env ''j1'' ?urls 0) = 100"
    by (simp add: final_row_def outcome_def processUrl_def Let_def race asc perfect_page_analysis)
  have s0: "?table ! 1 ! 1 = Num 100"
    unfolding row0 using sc by (simp add: csv_row_def)
  have b0: "?table ! 1 ! 16 = Undefined \<and> ?table ! 1 ! 17 = Str []"
    using pipeline_rows_blank_breakdown [of 0 ?urls perfect_env "''j1''"] by simp
  have c: "columns ! 16 = Str ''Score_Breakdown_Summary'' \<and> columns ! 17 = Str ''Breakdown_Details''"
    by (simp add: columns_def)
  from r t nr u0 s0 b0 c perfect_page_analysis [of "''https://a.com''"] json_breakdown_empty
  show ?thesis
    by (intro exI [of _ sys'] exI [of _ ?table]) simp
qed

section \<open>The history of a job record\<close>

lemma success_writes:
  assumes "bulkJobs (storage sys) jobId = Some job"
  shows "jobWrites ((emit (JobCompleted jobId)
             (snd (storage_updateBulkJob jobId
                (no_updates\<lparr>set_status := Some Completed, set_completedAt := Some (Some d),
                   set_resultFilePath := Some (Some p)\<rparr>)
                ((looped env jobId urls sys)\<lparr>resultFiles := fs\<rparr>))))
           \<lparr>processingJobs := pj\<rparr>) =
         jobWrites sys @ [(jobId, job\<lparr>job_status := Processing, processedUrls := 0\<rparr>)] @
           map (\<lambda>k. (jobId, job\<lparr>job_status := Processing, processedUrls := k + 1\<rparr>)) [0 ..< length urls] @
           [(jobId, job\<lparr>job_status := Completed, processedUrls := length urls,
                        completedAt := Some d, resultFilePath := Some p\<rparr>)]"
  by (simp add: storage_updateBulkJob_writes looped_job [OF assms])

lemma failed_after_loop_writes:
  assumes "bulkJobs (storage sys) jobId = Some job"
  shows "jobWrites ((emit (JobFailed jobId err)
             (snd (storage_updateBulkJob jobId
                (no_updates\<lparr>set_status := Some Failed, set_completedAt := Some (Some d)\<rparr>)
                (looped env jobId urls sys))))\<lparr>processingJobs := pj\<rparr>) =
         jobWrites sys @ [(jobId, job\<lparr>job_status := Processing, processedUrls := 0\<rparr>)] @
           map (\<lambda>k. (jobId, job\<lparr>job_status := Processing, processedUrls := k + 1\<rparr>)) [0 ..< length urls] @
           [(jobId, job\<lparr>job_status := Failed, processedUrls := length urls, completedAt := Some d\<rparr>)]"
  by (simp add: storage_updateBulkJob_writes looped_job [OF assms])

lemma failed_before_loop_writes:
  assumes "bulkJobs (storage sys) jobId = Some job"
  shows "jobWrites ((emit (JobFailed jobId err)
             (snd (storage_updateBulkJob jobId
                (no_updates\<lparr>set_status := Some Failed, set_completedAt := Some (Some d)\<rparr>)
                (claimed jobId sys))))\<lparr>processingJobs := pj\<rparr>) =
         jobWrites sys @ [(jobId, job\<lparr>job_status := Processing, processedUrls := 0\<rparr>),
           (jobId, job\<lparr>job_status := Failed, processedUrls := 0, completedAt := Some d\<rparr>)]"
  by (simp add: storage_updateBulkJob_writes claimed_simps(5,6) [OF assms])

lemma cleanupFile_storage [simp]:
  "storage (cleanupFile p sys) = storage sys"
  "jobWrites (cleanupFile p sys) = jobWrites sys"
  "processingJobs (cleanupFile p sys) = processingJobs sys"
  by (simp_all add: cleanupFile_def)

lemma delete_job_storage:
  "storage (snd (delete_job jobId sessionId sys)) =
     (case bulkJobs (storage sys) jobId of
        None \<Rightarrow> storage sys
      | Some job \<Rightarrow>
          if userSession job = sessionId \<and> (job_status job = Pending \<or> job_status job = Processing)
          then storage (snd (storage_updateBulkJob jobId (no_updates\<lparr>set_status := Some Failed\<rparr>) sys))
          else storage sys)"
  by (simp add: delete_job_def getBulkJob_def Let_def split: option.splits)

lemma delete_job_writes:
  "jobWrites (snd (delete_job jobId sessionId sys)) =
     (case bulkJobs (storage sys) jobId of
        None \<Rightarrow> jobWrites sys
      | Some job \<Rightarrow>
          if userSession job = sessionId \<and> (job_status job = Pending \<or> job_status job = Processing)
          then jobWrites sys @ [(jobId, job\<lparr>job_status := Failed\<rparr>)]
          else jobWrites sys)"
  by (simp add: delete_job_def getBulkJob_def Let_def storage_updateBulkJob_writes split: option.splits)

lemma delete_job_record:
  assumes "getBulkJob other (storage sys) = Some job2"
  shows "getBulkJob other (storage (snd (delete_job jobId sessionId sys))) =
     Some (job2\<lparr>job_status :=
       (if other = jobId \<and> userSession job2 = sessionId \<and>
           (job_status job2 = Pending \<or> job_status job2 = Processing)
        then Failed else job_status job2)\<rparr>)"
proof (cases "bulkJobs (storage sys) jobId")
  case None
  with assms have "other \<noteq> jobId"
    by (auto simp: getBulkJob_def)
  with assms None show ?thesis
    by (simp add: getBulkJob_def delete_job_storage)
next
  case (Some job)
  show ?thesis
  proof (cases "other = jobId")
    case True
    with assms Some have "job2 = job"
      by (simp add: getBulkJob_def)
    with True Some show ?thesis
      by (auto simp: getBulkJob_def delete_job_storage storage_updateBulkJob_jobs)
  next
    case False
    with assms Some show ?thesis
      by (simp add: getBulkJob_def delete_job_storage storage_updateBulkJob_jobs)
  qed
qed

lemma map_const_replicate: "map (\<lambda>k. c) xs = replicate (length xs) c"
  by (induction xs) simp_all

text \<open>
  What a runner pass writes. For a stored job, whatever its status, whose upload can be opened
  and whose total is the number of URLs in that upload: the pass returns; every record it writes
  is the job's, keeps the total and has a processed-count that does not exceed it; the statuses
  written are Processing (once, and then once per URL) followed by Completed or Failed, which is
  the final status.
\<close>

lemma runner_pass_writes:
  assumes notin: "jobId \<notin> processingJobs sys"
    and job: "getBulkJob jobId (storage sys) = Some job"
    and upl: "uploadFiles sys (upload_path jobId) = Some f"
    and tot: "\<forall>urls. parseCSVUrls f = Inr urls \<longrightarrow> length urls = totalUrls job"
  shows "\<exists>sys' ws fin n job'.
            processJob env jobId sys = Some sys' \<and>
            jobWrites sys' = jobWrites sys @ ws \<and>
            (\<forall>w \<in> set ws. fst w = jobId \<and> totalUrls (snd w) = totalUrls job \<and>
                            processedUrls (snd w) \<le> totalUrls (snd w)) \<and>
            map (\<lambda>w. job_status (snd w)) ws = replicate (Suc n) Processing @ [fin] \<and>
            (fin = Completed \<or> fin = Failed) \<and>
            getBulkJob jobId (storage sys') = Some job' \<and> job_status job' = fin \<and>
            processedUrls job' \<le> totalUrls job'"
proof -
  from job have job': "bulkJobs (storage sys) jobId = Some job"
    by (simp add: getBulkJob_def)
  let ?P = "\<lambda>sys' ws fin n job'.
            processJob env jobId sys = Some sys' \<and>
            jobWrites sys' = jobWrites sys @ ws \<and>
            (\<forall>w \<in> set ws. fst w = jobId \<and> totalUrls (snd w) = totalUrls job \<and>
                            processedUrls (snd w) \<le> totalUrls (snd w)) \<and>
            map (\<lambda>w. job_status (snd w)) ws = replicate (Suc n) Processing @ [fin] \<and>
            (fin = Completed \<or> fin = Failed) \<and>
            getBulkJob jobId (storage sys') = Some job' \<and> job_status job' = fin \<and>
            processedUrls job' \<le> totalUrls job'"
  show "\<exists>sys' ws fin n job'. ?P sys' ws fin n job'"
  proof (cases "parseCSVUrls f")
    case (Inl e)
    let ?d = "finishDate env"
    let ?sys' = "(emit (JobFailed jobId (ErrorObj e))
             (snd (storage_updateBulkJob jobId
                (no_updates\<lparr>set_status := Some Failed, set_completedAt := Some (Some ?d)\<rparr>)
                (claimed jobId sys))))\<lparr>processingJobs := processingJobs sys\<rparr>"
    let ?ws = "[(jobId, job\<lparr>job_status := Processing, processedUrls := 0\<rparr>),
           (jobId, job\<lparr>job_status := Failed, processedUrls := 0, completedAt := Some ?d\<rparr>)]"
    have "?P ?sys' ?ws Failed 0 (job\<lparr>job_status := Failed, processedUrls := 0, completedAt := Some ?d\<rparr>)"
      by (simp add: processJob_parse_error [OF notin job' upl Inl] failed_before_loop_writes [OF job']
          getBulkJob_def storage_updateBulkJob_jobs claimed_simps(5) [OF job'])
    then show ?thesis by blast
  next
    case (Inr urls)
    with tot have len: "length urls = totalUrls job" by simp
    let ?d = "finishDate env"
    let ?mid = "map (\<lambda>k. (jobId, job\<lparr>job_status := Processing, processedUrls := k + 1\<rparr>)) [0 ..< length urls]"
    have mid_ok: "\<forall>w \<in> set ?mid. fst w = jobId \<and> totalUrls (snd w) = totalUrls job \<and>
        processedUrls (snd w) \<le> totalUrls (snd w)"
      using len by auto
    have mid_st: "map (\<lambda>w. job_status (snd w)) ?mid = replicate (length urls) Processing"
      by (simp add: comp_def map_const_replicate)
    show ?thesis
    proof (cases "writeError env")
      case None
      let ?fs = "(resultFiles sys)(result_path jobId \<mapsto> columns # map csv_row (all_rows env jobId urls))"
      let ?sys' = "(emit (JobCompleted jobId)
             (snd (storage_updateBulkJob jobId
                (no_updates\<lparr>set_status := Some Completed, set_completedAt := Some (Some ?d),
                   set_resultFilePath := Some (Some (result_path jobId))\<rparr>)
                ((looped env jobId urls sys)\<lparr>resultFiles := ?fs\<rparr>))))
           \<lparr>processingJobs := processingJobs sys\<rparr>"
      let ?last = "job\<lparr>job_status := Completed, processedUrls := length urls,
                        completedAt := Some ?d, resultFilePath := Some (result_path jobId)\<rparr>"
      let ?ws = "[(jobId, job\<lparr>job_status := Processing, processedUrls := 0\<rparr>)] @ ?mid @ [(jobId, ?last)]"
      have r: "processJob env jobId sys = Some ?sys'"
        by (rule processJob_success [OF notin job' upl Inr None])
      have w: "jobWrites ?sys' = jobWrites sys @ ?ws"
        by (rule success_writes [OF job'])
      have ok: "\<forall>w \<in> set ?ws. fst w = jobId \<and> totalUrls (snd w) = totalUrls job \<and>
          processedUrls (snd w) \<le> totalUrls (snd w)"
        using mid_ok len by simp
      have st: "map (\<lambda>w. job_status (snd w)) ?ws =
          replicate (Suc (length urls)) Processing @ [Completed]"
        using mid_st by simp
      have g: "getBulkJob jobId (storage ?sys') = Some ?last"
        by (simp add: getBulkJob_def storage_updateBulkJob_jobs looped_job(1) [OF job'])
      have "?P ?sys' ?ws Completed (length urls) ?last"
        using r w ok st g len by (intro conjI) simp_all
      then show ?thesis by blast
    next
      case (Some e)
      let ?sys' = "(emit (JobFailed jobId (ErrorObj e))
             (snd (storage_updateBulkJob jobId
                (no_updates\<lparr>set_status := Some Failed, set_completedAt := Some (Some ?d)\<rparr>)
                (looped env jobId urls sys))))\<lparr>processingJobs := processingJobs sys\<rparr>"
      let ?last = "job\<lparr>job_status := Failed, processedUrls := length urls, completedAt := Some ?d\<rparr>"
      let ?ws = "[(jobId, job\<lparr>job_status := Processing, processedUrls := 0\<rparr>)] @ ?mid @ [(jobId, ?last)]"
      have r: "processJob env jobId sys = Some ?sys'"
        by (rule processJob_write_error [OF notin job' upl Inr Some])
      have w: "jobWrites ?sys' = jobWrites sys @ ?ws"
        by (rule failed_after_loop_writes [OF job'])
      have ok: "\<forall>w \<in> set ?ws. fst w = jobId \<and> totalUrls (snd w) = totalUrls job \<and>
          processedUrls (snd w) \<le> totalUrls (snd w)"
        using mid_ok len by simp
      have st: "map (\<lambda>w. job_status (snd w)) ?ws =
          replicate (Suc (length urls)) Processing @ [Failed]"
        using mid_st by simp
      have g: "getBulkJob jobId (storage ?sys') = Some ?last"
        by (simp add: getBulkJob_def storage_updateBulkJob_jobs looped_job(1) [OF job'])
      have "?P ?sys' ?ws Failed (length urls) ?last"
        using r w ok st g len by (intro conjI) simp_all
      then show ?thesis by blast
    qed
  qed
qed

text \<open>The answer of the DELETE handler.\<close>

lemma delete_job_code:
  "fst (delete_job jobId sessionId sys) =
     (case getBulkJob jobId (storage sys) of
        None \<Rightarrow> 404
      | Some job \<Rightarrow> if userSession job \<noteq> sessionId then 403 else 200)"
  by (simp add: delete_job_def Let_def split: option.splits)

text \<open>
  C2. The processed-count stays within the total, but the status goes backward. The DELETE
  handler marks a Pending or Processing job Failed and answers 200 (\<open>Job cancelled successfully\<close>),
  while processJob writes Processing, and in the end Completed, whatever the status of the job
  is. In the example the job is created by the upload handler (Pending) and deleted while the
  handler waits for the rename of the file (Failed, answer 200); the handler then starts
  processJob. The statuses written to the store are Pending, Failed, Processing (once, and once
  per URL) and Completed: the cancelled job goes back from Failed to Processing. The
  processed-count and the total of the records written are 0 to 3 of 3.
\<close>

theorem C2_cancelled_job_is_run_to_completed:
  "fst (delete_job ''j1'' ''session''
          (snd (upload_create ''j1'' ''2025-01-01T00:00:00.000Z'' ''session''
                  (Some example_file) example_start))) = 200 \<and>
   map_option status_history
     (processJob example_env ''j1''
        (upload_rename example_job example_file
           (snd (delete_job ''j1'' ''session''
              (snd (upload_create ''j1'' ''2025-01-01T00:00:00.000Z'' ''session''
                      (Some example_file) example_start)))))) =
   Some [Pending, Failed, Processing, Processing, Processing, Processing, Completed] \<and>
   map_option count_history
     (processJob example_env ''j1''
        (upload_rename example_job example_file
           (snd (delete_job ''j1'' ''session''
              (snd (upload_create ''j1'' ''2025-01-01T00:00:00.000Z'' ''session''
                      (Some example_file) example_start)))))) =
   Some [(0, 3), (0, 3), (0, 3), (1, 3), (2, 3), (3, 3), (3, 3)]"
proof -
  let ?sysA = "snd (upload_create ''j1'' ''2025-01-01T00:00:00.000Z'' ''session'' (Some example_file) example_start)"
  let ?sysB = "snd (delete_job ''j1'' ''session'' ?sysA)"
  let ?sysC = "upload_rename example_job example_file ?sysB"
  have "validateCSVFile (uploadFiles example_start) ''tmp/x'' =
      \<lparr>valid = True, error = None, urlCount = Some 3\<rparr>"
    by (simp add: validateCSVFile_def example_start_def example_parse) (simp add: example_upload_def)
  then have a: "?sysA =
      example_start\<lparr>storage := (storage example_start)\<lparr>bulkJobs := [''j1'' \<mapsto> example_job]\<rparr>,
        jobWrites := [(''j1'', example_job)]\<rparr>"
    by (simp add: upload_create_def example_file_def Let_def storage_createBulkJob_def
        createBulkJob_def example_job_def example_start_def)
  have jA: "bulkJobs (storage ?sysA) ''j1'' = Some example_job"
    and wA: "jobWrites ?sysA = [(''j1'', example_job)]"
    and uA: "uploadFiles ?sysA = [''tmp/x'' \<mapsto> example_upload]"
    and pA: "processingJobs ?sysA = {}"
    and rA: "resultFiles ?sysA = Map.empty"
    unfolding a by (simp_all add: example_start_def)
  have own: "userSession example_job = ''session''" and pend: "job_status example_job = Pending"
    by (simp_all add: example_job_def)
  have jB: "bulkJobs (storage ?sysB) ''j1'' = Some (example_job\<lparr>job_status := Failed\<rparr>)"
    using delete_job_record [of "''j1''" ?sysA example_job "''j1''" "''session''"] jA own pend
    by (simp add: getBulkJob_def)
  have wB: "jobWrites ?sysB = [(''j1'', example_job), (''j1'', example_job\<lparr>job_status := Failed\<rparr>)]"
    by (simp add: delete_job_writes jA own pend wA)
  have uB: "uploadFiles ?sysB = [''tmp/x'' \<mapsto> example_upload]"
    and pB: "processingJobs ?sysB = {}"
    using jA own pend uA pA rA
    by (simp_all add: delete_job_def getBulkJob_def Let_def existsSync_def upload_path_def
        example_job_def)
  have fp: "file_path example_file = ''tmp/x''" and jid: "job_id example_job = ''j1''"
    by (simp_all add: example_file_def example_job_def)
  have c: "?sysC = ?sysB\<lparr>uploadFiles := [''tmp/x'' \<mapsto> example_upload](''tmp/x'' := None,
      upload_path ''j1'' \<mapsto> example_upload)\<rparr>"
    by (simp add: upload_rename_def uB fp jid)
  have jC: "bulkJobs (storage ?sysC) ''j1'' = Some (example_job\<lparr>job_status := Failed\<rparr>)"
    and wC: "jobWrites ?sysC = [(''j1'', example_job), (''j1'', example_job\<lparr>job_status := Failed\<rparr>)]"
    and uC: "uploadFiles ?sysC (upload_path ''j1'') = Some example_upload"
    and pC: "''j1'' \<notin> processingJobs ?sysC"
    unfolding c by (simp_all add: jB wB pB)
  note run = processJob_success [OF pC jC uC example_parse example_uploaded_simps(6)]
  have code: "fst (delete_job ''j1'' ''session'' ?sysA) = 200"
    by (simp add: delete_job_code getBulkJob_def jA own)
  have sts: "map_option status_history (processJob example_env ''j1'' ?sysC) =
      Some [Pending, Failed, Processing, Processing, Processing, Processing, Completed]"
    unfolding run option.map status_history_def success_writes [OF jC] wC
    by (simp add: example_job_def upt_rec)
  have cnt: "map_option count_history (processJob example_env ''j1'' ?sysC) =
      Some [(0, 3), (0, 3), (0, 3), (1, 3), (2, 3), (3, 3), (3, 3)]"
    unfolding run option.map count_history_def success_writes [OF jC] wC
    by (simp add: example_job_def upt_rec)
  from code sts cnt show ?thesis
    by (intro conjI)
qed

end
